theory Spec2Isabelle
  imports Complex_Main "HOL-Library.AList" "HOL-Library.Log_Nat"
begin

section \<open>JavaScript values and strings\<close>

text \<open>
  The services are TypeScript running in a browser. A cell of a parsed sheet is
  \<^verbatim>\<open>string | number | boolean | null\<close> (\<^verbatim>\<open>MerchantRecord\<close> in the types file), and
  reading a key that a record does not have gives \<^verbatim>\<open>undefined\<close>. Strings are lists of
  8-bit characters: every letter, digit and separator the code inspects is ASCII, and
  lower-casing and white space are modelled on ASCII. Numbers in cells are integers here
  (merchant identifiers, Excel day serials); the decimal strings that \<^verbatim>\<open>Number\<close> and
  \<^verbatim>\<open>parseFloat\<close> read are treated further below.
\<close>

datatype jsval = JUndefined | JNull | JBool bool | JNum int | JStr string

definition digitChar :: "int \<Rightarrow> char" where
  "digitChar d = ''0123456789'' ! nat (d mod 10)"

function showDigits :: "int \<Rightarrow> string" where
  "showDigits n =
     (if n < 10 then [digitChar n] else showDigits (n div 10) @ [digitChar (n mod 10)])"
  by pat_completeness auto
termination
  by (relation "measure nat") auto

declare showDigits.simps [simp del]

definition showInt :: "int \<Rightarrow> string" where
  "showInt i = (if i < 0 then CHR ''-'' # showDigits (- i) else showDigits i)"

text \<open>\<^verbatim>\<open>String(v)\<close> on the scalar values of a record.\<close>

fun String_js :: "jsval \<Rightarrow> string" where
  "String_js JUndefined = ''undefined''"
| "String_js JNull = ''null''"
| "String_js (JBool b) = (if b then ''true'' else ''false'')"
| "String_js (JNum n) = showInt n"
| "String_js (JStr s) = s"

text \<open>Truthiness, as \<^verbatim>\<open>!v\<close>, \<^verbatim>\<open>v || d\<close> and \<^verbatim>\<open>if (v)\<close> test it.\<close>

fun truthy :: "jsval \<Rightarrow> bool" where
  "truthy JUndefined = False"
| "truthy JNull = False"
| "truthy (JBool b) = b"
| "truthy (JNum n) = (n \<noteq> 0)"
| "truthy (JStr s) = (s \<noteq> [])"

definition js_or :: "jsval \<Rightarrow> jsval \<Rightarrow> jsval" where
  "js_or v d = (if truthy v then v else d)"

definition lowerChar :: "char \<Rightarrow> char" where
  "lowerChar c =
     (case map_of (zip ''ABCDEFGHIJKLMNOPQRSTUVWXYZ'' ''abcdefghijklmnopqrstuvwxyz'') c of
        Some l \<Rightarrow> l
      | None \<Rightarrow> c)"

definition toLowerCase :: "string \<Rightarrow> string" where
  "toLowerCase s = map lowerChar s"

text \<open>\<^verbatim>\<open>s.includes(sub)\<close>: \<open>sub\<close> occurs in \<open>s\<close> as a contiguous run.\<close>

fun startsWith :: "string \<Rightarrow> string \<Rightarrow> bool" where
  "startsWith s [] = True"
| "startsWith [] (c # cs) = False"
| "startsWith (d # ds) (c # cs) = (d = c \<and> startsWith ds cs)"

fun includes_str :: "string \<Rightarrow> string \<Rightarrow> bool" where
  "includes_str [] sub = (sub = [])"
| "includes_str (c # cs) sub = (startsWith (c # cs) sub \<or> includes_str cs sub)"

definition isSpace :: "char \<Rightarrow> bool" where
  "isSpace c = (c \<in> set [CHR 0x09, CHR 0x0A, CHR 0x0B, CHR 0x0C, CHR 0x0D, CHR 0x20])"

definition trim :: "string \<Rightarrow> string" where
  "trim s = rev (dropWhile isSpace (rev (dropWhile isSpace s)))"

definition isDigit :: "char \<Rightarrow> bool" where
  "isDigit c = (c \<in> set ''0123456789'')"

section \<open>KeyNormalizer\<close>

text \<open>
  \<^verbatim>\<open>export const normalizeKey = (key: string): string =>
    String(key || '').toLowerCase().replace(/[^a-z0-9]/g, '');\<close>
\<close>

definition keyChar :: "char \<Rightarrow> bool" where
  "keyChar c = (c \<in> set ''abcdefghijklmnopqrstuvwxyz0123456789'')"

definition normalizeKey_any :: "jsval \<Rightarrow> string" where
  "normalizeKey_any key = filter keyChar (toLowerCase (String_js (js_or key (JStr ''''))))"

definition normalizeKey :: "string \<Rightarrow> string" where
  "normalizeKey key = normalizeKey_any (JStr key)"

section \<open>Tables and records\<close>

text \<open>
  A record is an object with string keys: an association list in insertion order, read with
  \<open>map_of\<close> (a missing key reads as \<^verbatim>\<open>undefined\<close>). A sheet of a workbook is modelled by
  the rows that \<^verbatim>\<open>XLSX.utils.sheet_to_json\<close> returns for it.
\<close>

type_synonym MerchantRecord = "(string \<times> jsval) list"

definition get_field :: "MerchantRecord \<Rightarrow> string \<Rightarrow> jsval" where
  "get_field r k = (case map_of r k of Some v \<Rightarrow> v | None \<Rightarrow> JUndefined)"

text \<open>
  \<^verbatim>\<open>r[k] = v\<close> on an object: an existing key keeps its place, a new key goes last.
\<close>

definition set_field :: "MerchantRecord \<Rightarrow> string \<Rightarrow> jsval \<Rightarrow> MerchantRecord" where
  "set_field r k v = AList.update k v r"

definition Object_keys :: "MerchantRecord \<Rightarrow> string list" where
  "Object_keys r = map fst r"

record ParsedDatabase =
  fileName :: string
  rowCount :: nat
  data :: "MerchantRecord list"
  columns :: "string list"

record DbConfig =
  midCol :: string
  nameCol :: string
  mappings :: "(string \<times> string) list"

datatype searchType = Mid | Name

fun push_matches :: "string \<Rightarrow> MerchantRecord list \<Rightarrow> MerchantRecord list \<Rightarrow> MerchantRecord list" where
  "push_matches src [] results = results"
| "push_matches src (m # ms) results =
     (if length results \<ge> 20 then results
      else push_matches src ms (results @ [set_field m ''__sourceFile'' (JStr src)]))"

fun search_loop ::
  "(string \<rightharpoonup> DbConfig) \<Rightarrow> string \<Rightarrow> searchType \<Rightarrow> ParsedDatabase list \<Rightarrow>
   MerchantRecord list \<Rightarrow> MerchantRecord list" where
  "search_loop dbConfigs searchKey ty [] results = results"
| "search_loop dbConfigs searchKey ty (db # dbs) results =
     (if length results \<ge> 20 then results
      else case dbConfigs (fileName db) of
        None \<Rightarrow> search_loop dbConfigs searchKey ty dbs results
      | Some config \<Rightarrow>
          (let col = (case ty of Mid \<Rightarrow> midCol config | Name \<Rightarrow> nameCol config) in
           if col = [] then search_loop dbConfigs searchKey ty dbs results
           else
             let matches = filter (\<lambda>row.
                   includes_str (normalizeKey (String_js (js_or (get_field row col) (JStr ''''))))
                     searchKey) (data db)
             in search_loop dbConfigs searchKey ty dbs (push_matches (fileName db) matches results)))"

definition holdDatabases :: "ParsedDatabase list \<Rightarrow> ParsedDatabase list" where
  "holdDatabases databases = filter (\<lambda>d. includes_str (toLowerCase (fileName d)) ''hold'') databases"

definition searchRecords ::
  "ParsedDatabase list \<Rightarrow> (string \<rightharpoonup> DbConfig) \<Rightarrow> string \<Rightarrow> searchType \<Rightarrow> MerchantRecord list" where
  "searchRecords databases dbConfigs query ty =
     (if databases = [] \<or> trim query = [] then []
      else search_loop dbConfigs (normalizeKey query) ty (holdDatabases databases) [])"

definition sourced :: "string \<Rightarrow> MerchantRecord \<Rightarrow> bool" where
  "sourced src r = (get_field r ''__sourceFile'' = JStr src)"

section \<open>Numbers: rounding to binary64\<close>

text \<open>
  A JavaScript number is an IEEE 754 binary64 value. \<open>binary64\<close> rounds a positive exact
  value to the nearest one, ties to the even significand: the value lies in
  \<open>[2^e, 2^(e+1))\<close>, the spacing of the representable numbers there is \<open>2^(e - 52)\<close>, and
  never less than \<open>2^(-1074)\<close>. The largest exponent of a finite number is 1023: a
  rounded value of \<open>2^1024\<close> or more is an infinity.
\<close>

definition pow2 :: "int \<Rightarrow> rat" where
  "pow2 e = (if 0 \<le> e then 2 ^ nat e else 1 / 2 ^ nat (- e))"

definition roundHalfEven :: "rat \<Rightarrow> int" where
  "roundHalfEven x =
     (let f = \<lfloor>x\<rfloor>; r = x - rat_of_int f
      in if r < 1 / 2 then f else if 1 / 2 < r then f + 1 else if even f then f else f + 1)"

definition floorLog2 :: "rat \<Rightarrow> int" where
  "floorLog2 x =
     (let e = bitlen (fst (quotient_of x)) - bitlen (snd (quotient_of x))
      in if pow2 e \<le> x then e else e - 1)"

definition binary64 :: "rat \<Rightarrow> rat" where
  "binary64 x =
     (if x \<le> 0 then 0
      else let q = max (floorLog2 x - 52) (- 1074)
           in rat_of_int (roundHalfEven (x / pow2 q)) * pow2 q)"

text \<open>The result of an arithmetic operation: the exact result, rounded.\<close>

definition fl :: "rat \<Rightarrow> rat" where
  "fl x = (if x < 0 then - binary64 (- x) else binary64 x)"

section \<open>Numbers read from strings\<close>

text \<open>
  \<^verbatim>\<open>Number(s)\<close> and \<^verbatim>\<open>parseFloat(s)\<close> follow the grammar of numeric string literals:
  an optional sign, \<^verbatim>\<open>Infinity\<close> or decimal digits with an optional fraction and exponent,
  and for \<^verbatim>\<open>Number\<close> also the binary, octal and hexadecimal integer forms. \<^verbatim>\<open>Number\<close>
  wants the whole trimmed string (the empty string is 0), \<^verbatim>\<open>parseFloat\<close> the longest
  prefix. A finite number is its sign and its magnitude. \<^verbatim>\<open>Number\<close> gives the binary64
  value nearest to the literal, so that comparisons see what the runtime sees.
  \<^verbatim>\<open>parseFloat\<close> keeps the decimal value of the literal: its only use is in
  \<^verbatim>\<open>formatCurrency\<close>, whose formatter works from the shortest decimal that names the
  binary64 value, and that is the literal itself up to 15 significant digits.
\<close>

datatype jsnumber = NaN | Infinite bool | Finite bool rat

definition isNaN :: "jsnumber \<Rightarrow> bool" where
  "isNaN n = (n = NaN)"

definition digitVal :: "char \<Rightarrow> int" where
  "digitVal c =
     (case map_of (zip ''0123456789abcdefABCDEF'' ([0..15] @ [10..15])) c of
        Some d \<Rightarrow> d
      | None \<Rightarrow> 16)"

fun digitsFrom :: "int \<Rightarrow> int \<Rightarrow> string \<Rightarrow> int" where
  "digitsFrom base a [] = a"
| "digitsFrom base a (c # cs) = digitsFrom base (base * a + digitVal c) cs"

definition digitsVal :: "int \<Rightarrow> string \<Rightarrow> int" where
  "digitsVal base ds = digitsFrom base 0 ds"

definition radixDigit :: "int \<Rightarrow> char \<Rightarrow> bool" where
  "radixDigit base c = (digitVal c < base)"

definition radixLiteral :: "int \<Rightarrow> string \<Rightarrow> int option" where
  "radixLiteral base ds =
     (if ds \<noteq> [] \<and> list_all (radixDigit base) ds then Some (digitsVal base ds) else None)"

definition nonDecimalLiteral :: "string \<Rightarrow> int option" where
  "nonDecimalLiteral s =
     (case s of
        c0 # c1 # ds \<Rightarrow>
          if c0 \<noteq> CHR ''0'' then None
          else if c1 = CHR ''x'' \<or> c1 = CHR ''X'' then radixLiteral 16 ds
          else if c1 = CHR ''o'' \<or> c1 = CHR ''O'' then radixLiteral 8 ds
          else if c1 = CHR ''b'' \<or> c1 = CHR ''B'' then radixLiteral 2 ds
          else None
      | _ \<Rightarrow> None)"

definition signPrefix :: "string \<Rightarrow> bool \<times> string" where
  "signPrefix s =
     (case s of
        [] \<Rightarrow> (False, s)
      | c # r \<Rightarrow> if c = CHR ''-'' then (True, r) else if c = CHR ''+'' then (False, r) else (False, s))"

definition exponentPart :: "string \<Rightarrow> (int \<times> string) option" where
  "exponentPart s =
     (case s of
        [] \<Rightarrow> None
      | c # r \<Rightarrow>
          if c = CHR ''e'' \<or> c = CHR ''E'' then
            (let (neg, r1) = signPrefix r; ds = takeWhile isDigit r1
             in if ds = [] then None
                else Some (if neg then - digitsVal 10 ds else digitsVal 10 ds,
                           dropWhile isDigit r1))
          else None)"

definition scale10 :: "rat \<Rightarrow> int \<Rightarrow> rat" where
  "scale10 m e = (if 0 \<le> e then m * 10 ^ nat e else m / 10 ^ nat (- e))"

definition unsignedDecimal :: "string \<Rightarrow> (rat option \<times> string) option" where
  "unsignedDecimal s =
     (if startsWith s ''Infinity'' then Some (None, drop 8 s)
      else
        let ip = takeWhile isDigit s;
            r1 = dropWhile isDigit s;
            dot = (case r1 of [] \<Rightarrow> False | c # _ \<Rightarrow> c = CHR ''.'');
            fp = (if dot then takeWhile isDigit (tl r1) else []);
            r2 = (if dot then dropWhile isDigit (tl r1) else r1)
        in if ip = [] \<and> fp = [] then None
           else
             let m = rat_of_int (digitsVal 10 (ip @ fp)) / 10 ^ length fp
             in case exponentPart r2 of
                  Some (e, r3) \<Rightarrow> Some (Some (scale10 m e), r3)
                | None \<Rightarrow> Some (Some m, r2))"

definition signedDecimal :: "string \<Rightarrow> (jsnumber \<times> string) option" where
  "signedDecimal s =
     (let (neg, r) = signPrefix s
      in case unsignedDecimal r of
           None \<Rightarrow> None
         | Some (None, rest) \<Rightarrow> Some (Infinite neg, rest)
         | Some (Some m, rest) \<Rightarrow> Some (Finite neg m, rest))"

definition toBinary64 :: "jsnumber \<Rightarrow> jsnumber" where
  "toBinary64 n =
     (case n of
        Finite neg m \<Rightarrow>
          if 1024 \<le> floorLog2 (binary64 m) then Infinite neg else Finite neg (binary64 m)
      | _ \<Rightarrow> n)"

definition Number_js :: "string \<Rightarrow> jsnumber" where
  "Number_js s =
     (let t = trim s
      in if t = [] then Finite False 0
         else case nonDecimalLiteral t of
                Some n \<Rightarrow> toBinary64 (Finite False (rat_of_int n))
              | None \<Rightarrow>
                  (case signedDecimal t of
                     Some (n, rest) \<Rightarrow> if rest = [] then toBinary64 n else NaN
                   | None \<Rightarrow> NaN))"

definition parseFloat :: "string \<Rightarrow> jsnumber" where
  "parseFloat s =
     (case signedDecimal (dropWhile isSpace s) of
        Some (n, rest) \<Rightarrow> n
      | None \<Rightarrow> NaN)"

section \<open>Date and currency normalization\<close>

text \<open>
  A \<^verbatim>\<open>Date\<close> is a time value, milliseconds from 1 January 1970 UTC. Its local calendar
  fields are those of the language standard: \<open>Day\<close>, \<open>DayFromYear\<close>, \<open>YearFromTime\<close>
  (the largest year that starts at or before the time, found by stepping down from an upper
  estimate), \<open>MonthFromTime\<close> and \<open>DateFromTime\<close>, applied to the local time
  \<open>t + LocalTZA t\<close>. The offset of the user's time zone and the host's parser for date
  strings that are not in ISO format are parameters, the record \<open>host\<close>. The
  arithmetic on a serial number is binary64 arithmetic: each operation rounds its exact
  result (\<open>fl\<close>); \<^verbatim>\<open>Math.round\<close> and the addition of the twelve hours are exact on the
  integers they meet.
\<close>

definition numValue :: "bool \<Rightarrow> rat \<Rightarrow> rat" where
  "numValue neg m = (if neg then - m else m)"

definition Math_round :: "rat \<Rightarrow> int" where
  "Math_round x = \<lfloor>x + 1 / 2\<rfloor>"

definition msPerDay :: int where
  "msPerDay = 86400000"

definition Day :: "int \<Rightarrow> int" where
  "Day t = t div msPerDay"

definition DayFromYear :: "int \<Rightarrow> int" where
  "DayFromYear y = 365 * (y - 1970) + (y - 1969) div 4 - (y - 1901) div 100 + (y - 1601) div 400"

lemma DayFromYear_step: "DayFromYear (y - 1) < DayFromYear y"
proof -
  have lin: "365 * (y - 1 - 1970) + a' - c' + b' < 365 * (y - 1970) + a - c + b"
    if "a' \<le> a" "b' \<le> b" "c \<le> c' + 1" for a a' b b' c c' :: int
    using that by simp
  have a: "(y - 1 - 1969) div 4 \<le> (y - 1969) div 4"
    by (rule zdiv_mono1) simp_all
  have b: "(y - 1 - 1601) div 400 \<le> (y - 1601) div 400"
    by (rule zdiv_mono1) simp_all
  have "(y - 1901) div 100 \<le> (y - 1 - 1901 + 100) div 100"
    by (rule zdiv_mono1) simp_all
  also have "\<dots> = (y - 1 - 1901) div 100 + 1"
    by simp
  finally have c: "(y - 1901) div 100 \<le> (y - 1 - 1901) div 100 + 1" .
  show ?thesis
    unfolding DayFromYear_def by (rule lin [OF a b c])
qed

function yearAtOrBelow :: "int \<Rightarrow> int \<Rightarrow> int" where
  "yearAtOrBelow y d = (if DayFromYear y \<le> d then y else yearAtOrBelow (y - 1) d)"
  by pat_completeness auto
termination
proof (relation "measure (\<lambda>(y, d). nat (DayFromYear y - d))")
  show "wf (measure (\<lambda>(y, d). nat (DayFromYear y - d)))" by simp
next
  fix y d :: int
  assume "\<not> DayFromYear y \<le> d"
  with DayFromYear_step [of y]
  show "((y - 1, d), (y, d)) \<in> measure (\<lambda>(y, d). nat (DayFromYear y - d))"
    by simp
qed

declare yearAtOrBelow.simps [simp del]

definition YearFromTime :: "int \<Rightarrow> int" where
  "YearFromTime t = yearAtOrBelow (1970 + max (Day t div 365) (Day t div 366)) (Day t)"

definition InLeapYear :: "int \<Rightarrow> int" where
  "InLeapYear t =
     (if DayFromYear (YearFromTime t + 1) - DayFromYear (YearFromTime t) = 366 then 1 else 0)"

definition DayWithinYear :: "int \<Rightarrow> int" where
  "DayWithinYear t = Day t - DayFromYear (YearFromTime t)"

definition MonthFromTime :: "int \<Rightarrow> int" where
  "MonthFromTime t =
     (let d = DayWithinYear t; l = InLeapYear t
      in if d < 31 then 0
         else if d < 59 + l then 1
         else if d < 90 + l then 2
         else if d < 120 + l then 3
         else if d < 151 + l then 4
         else if d < 181 + l then 5
         else if d < 212 + l then 6
         else if d < 243 + l then 7
         else if d < 273 + l then 8
         else if d < 304 + l then 9
         else if d < 334 + l then 10
         else 11)"

definition DateFromTime :: "int \<Rightarrow> int" where
  "DateFromTime t =
     (let d = DayWithinYear t; l = InLeapYear t; m = MonthFromTime t
      in if m = 0 then d + 1
         else if m = 1 then d - 30
         else if m = 2 then d - 58 - l
         else if m = 3 then d - 89 - l
         else if m = 4 then d - 119 - l
         else if m = 5 then d - 150 - l
         else if m = 6 then d - 180 - l
         else if m = 7 then d - 211 - l
         else if m = 8 then d - 242 - l
         else if m = 9 then d - 272 - l
         else if m = 10 then d - 303 - l
         else d - 333 - l)"

definition validTime :: "int \<Rightarrow> bool" where
  "validTime t = (\<bar>t\<bar> \<le> 8640000000000000)"

record host =
  LocalTZA :: "int \<Rightarrow> int"
  Date_parse :: "string \<Rightarrow> int option"

definition LocalTime :: "host \<Rightarrow> int \<Rightarrow> int" where
  "LocalTime h t = t + LocalTZA h t"

definition padStart2 :: "string \<Rightarrow> string" where
  "padStart2 s = replicate (2 - length s) (CHR ''0'') @ s"

definition formatMDY :: "int \<Rightarrow> string" where
  "formatMDY lt =
     (let y = YearFromTime lt;
          m = padStart2 (showInt (MonthFromTime lt + 1));
          d = padStart2 (showInt (DateFromTime lt))
      in m @ ''/'' @ d @ ''/'' @ showInt y)"

fun split_on :: "char \<Rightarrow> string \<Rightarrow> string list" where
  "split_on c [] = [[]]"
| "split_on c (x # xs) =
     (if x = c then [] # split_on c xs
      else case split_on c xs of p # ps \<Rightarrow> (x # p) # ps | [] \<Rightarrow> [[x]])"

definition part :: "string list \<Rightarrow> nat \<Rightarrow> string" where
  "part parts i = (if i < length parts then parts ! i else ''undefined'')"

definition isAlpha :: "char \<Rightarrow> bool" where
  "isAlpha c = (c \<in> set ''ABCDEFGHIJKLMNOPQRSTUVWXYZabcdefghijklmnopqrstuvwxyz'')"

text \<open>
  The two regular expressions: \<^verbatim>\<open>/^\d{4}-\d{2}-\d{2}$/\<close> and
  \<^verbatim>\<open>/^[A-Za-z]{3}\/\d{1,2}\/\d{4}$/\<close>.
\<close>

definition isoDateShape :: "string \<Rightarrow> bool" where
  "isoDateShape s =
     (length s = 10 \<and> list_all isDigit (take 4 s) \<and> s ! 4 = CHR ''-''
      \<and> list_all isDigit (take 2 (drop 5 s)) \<and> s ! 7 = CHR ''-''
      \<and> list_all isDigit (drop 8 s))"

definition monDateShape :: "string \<Rightarrow> bool" where
  "monDateShape s =
     (length (take 3 s) = 3 \<and> list_all isAlpha (take 3 s)
      \<and> (case drop 3 s of
            [] \<Rightarrow> False
          | c # r \<Rightarrow>
              c = CHR ''/''
              \<and> (length (takeWhile isDigit r) = 1 \<or> length (takeWhile isDigit r) = 2)
              \<and> (case dropWhile isDigit r of
                    [] \<Rightarrow> False
                  | c' # yyyy \<Rightarrow> c' = CHR ''/'' \<and> length yyyy = 4 \<and> list_all isDigit yyyy)))"

definition serialDate :: "host \<Rightarrow> jsnumber \<Rightarrow> string option" where
  "serialDate h n =
     (case n of
        Finite neg m \<Rightarrow>
          (let num = numValue neg m
           in if 30000 < num \<and> num < 60000 then
                (let date = Math_round (fl (fl (fl (num - 25569) * 86400) * 1000)) + 43200000
                 in if validTime date then Some (formatMDY (LocalTime h date)) else None)
              else None)
      | _ \<Rightarrow> None)"

definition parseExcelDate :: "host \<Rightarrow> jsval \<Rightarrow> string" where
  "parseExcelDate h v =
     (if v = JNull \<or> v = JUndefined then []
      else
        let strVal = trim (String_js v)
        in if strVal = [] then []
           else case serialDate h (Number_js strVal) of
                  Some out \<Rightarrow> out
                | None \<Rightarrow>
                    if isoDateShape strVal then
                      (let parts = split_on (CHR ''-'') strVal
                       in part parts 1 @ ''/'' @ part parts 2 @ ''/'' @ part parts 0)
                    else if monDateShape strVal then
                      (case Date_parse h strVal of
                         Some date \<Rightarrow>
                           if validTime date then formatMDY (LocalTime h date) else strVal
                       | None \<Rightarrow> strVal)
                    else strVal)"

text \<open>
  \<^verbatim>\<open>num.toLocaleString('en-US', {minimumFractionDigits: 2, maximumFractionDigits: 2})\<close>:
  the magnitude rounded to hundredths (halves away from zero), the integer digits grouped
  by three with commas, on the reversed digit string.
\<close>

fun group3 :: "string \<Rightarrow> string" where
  "group3 (a # b # c # d # r) = a # b # c # CHR '','' # group3 (d # r)"
| "group3 ds = ds"

definition toLocaleString2 :: "jsnumber \<Rightarrow> string" where
  "toLocaleString2 n =
     (case n of
        NaN \<Rightarrow> ''NaN''
      | Infinite neg \<Rightarrow> (if neg then ''-'' else []) @ [CHR 0xE2, CHR 0x88, CHR 0x9E]
      | Finite neg m \<Rightarrow>
          (let cents = \<lfloor>m * 100 + 1 / 2\<rfloor>
           in (if neg then ''-'' else [])
              @ rev (group3 (rev (showDigits (cents div 100))))
              @ ''.'' @ padStart2 (showDigits (cents mod 100))))"

definition currencyChar :: "char \<Rightarrow> bool" where
  "currencyChar c = (isDigit c \<or> c = CHR ''.'' \<or> c = CHR ''-'')"

definition formatCurrency :: "jsval \<Rightarrow> string" where
  "formatCurrency v =
     (if v = JUndefined \<or> v = JNull \<or> v = JStr [] then []
      else
        let strVal = String_js v
        in if CHR '','' \<in> set strVal \<and> CHR ''.'' \<in> set strVal
              \<and> length (part (split_on (CHR ''.'') strVal) 1) = 2
           then strVal
           else
             let cleanStr = filter currencyChar strVal;
                 num = parseFloat cleanStr
             in if isNaN num then strVal else toLocaleString2 num)"

text \<open>
  What the specification calls a valid \<open>MM/DD/YYYY\<close> string: two digits, a slash, two
  digits, a slash, four digits, with the month in 1..12 and the day in 1..31.
\<close>

definition validMDY :: "string \<Rightarrow> bool" where
  "validMDY s =
     (length s = 10 \<and> list_all isDigit (take 2 s) \<and> s ! 2 = CHR ''/''
      \<and> list_all isDigit (take 2 (drop 3 s)) \<and> s ! 5 = CHR ''/''
      \<and> list_all isDigit (drop 6 s)
      \<and> 1 \<le> digitsVal 10 (take 2 s) \<and> digitsVal 10 (take 2 s) \<le> 12
      \<and> 1 \<le> digitsVal 10 (take 2 (drop 3 s)) \<and> digitsVal 10 (take 2 (drop 3 s)) \<le> 31)"

section \<open>ColumnResolver: the identifier column\<close>

definition midCandidates :: "string list" where
  "midCandidates =
     [''mid'', ''merchantid'', ''merch_id'', ''id'', ''merchant_id'', ''merchant_mid'',
      ''accountid'', ''account_id'', ''outletid'', ''outlet_id'', ''outlet_number'',
      ''card_acceptor_id'', ''merchant_no'', ''mid_no'', ''midnumber'', ''partyid'',
      ''party_id'', ''orgmid'', ''org_mid'', ''accountnumber'', ''cardacceptor'', ''merchnum'']"

definition isMidColumn :: "string \<Rightarrow> bool" where
  "isMidColumn col = (normalizeKey col \<in> set midCandidates)"

definition findMidColumn :: "string list \<Rightarrow> string option" where
  "findMidColumn cols = find isMidColumn cols"

text \<open>Two keys are the same when their normalized forms are equal.\<close>

definition sameKey :: "string \<Rightarrow> string \<Rightarrow> bool" where
  "sameKey a b = (normalizeKey a = normalizeKey b)"

section \<open>SpreadsheetUpdater\<close>

text \<open>
  \<^verbatim>\<open>updateRowInMasterSheet(targetSheetType, midToFind, updatedData)\<close> reads the linked
  workbook through a file handle kept in IndexedDB, patches one row and writes the whole
  workbook back. The model passes the world explicitly: whether the XLSX library is
  loaded, and the store of linked files. A linked file answers the permission query and the
  permission request, holds the workbook that reading it yields (or fails to be read), and
  accepts or refuses the write. The function returns \<^verbatim>\<open>true\<close> or, after an alert,
  \<^verbatim>\<open>false\<close>; the model names each alert.
\<close>

datatype sheetType = HOLD | RM

definition sheetToken :: "sheetType \<Rightarrow> string" where
  "sheetToken ty = (case ty of HOLD \<Rightarrow> ''HOLD'' | RM \<Rightarrow> ''RM'')"

record workbook =
  SheetNames :: "string list"
  Sheets :: "(string \<times> MerchantRecord list) list"

record linked_file =
  permission :: bool
  grantOnRequest :: bool
  contents :: "workbook option"
  writeFails :: bool

type_synonym handle_store = "(string \<times> linked_file) list"

definition getMasterHandle :: "handle_store \<Rightarrow> sheetType \<Rightarrow> linked_file option" where
  "getMasterHandle store ty = map_of store (''master_excel_'' @ sheetToken ty)"

definition writeFile :: "handle_store \<Rightarrow> sheetType \<Rightarrow> workbook \<Rightarrow> handle_store" where
  "writeFile store ty wb =
     (case getMasterHandle store ty of
        None \<Rightarrow> store
      | Some fileHandle \<Rightarrow>
          AList.update (''master_excel_'' @ sheetToken ty) (fileHandle\<lparr>contents := Some wb\<rparr>) store)"

datatype fault = ReadFault | PatchFault | WriteFault

datatype failure =
    LibraryNotLoaded
  | NoMerchantId
  | NoLinkedResource
  | PermissionDenied
  | ColumnNotFound
  | RowNotFound
  | UpdateError fault

datatype outcome = Updated | Failed failure

text \<open>
  \<^verbatim>\<open>FIELD_MAPPINGS\<close>, and the names every object inherits from \<^verbatim>\<open>Object.prototype\<close>:
  \<^verbatim>\<open>FIELD_MAPPINGS[formKey]\<close> is truthy for those too, and calling \<^verbatim>\<open>.includes\<close> on what it
  yields raises a TypeError.
\<close>

definition FIELD_MAPPINGS :: "(string \<times> string list) list" where
  "FIELD_MAPPINGS =
     [(''Merchant ID'', [''mid'', ''merchantid'', ''orgmid'', ''merchant_id'']),
      (''Merchant Name'', [''merchantname'', ''name'', ''merchant'']),
      (''POS/ECOM'', [''pos'', ''posecom'', ''type'']),
      (''RM Name'', [''rm'', ''rmname'', ''relationshipmanager'']),
      (''Channel SME/KEY/GOV'',
         [''finalseg'', ''final_segment'', ''finalsegment'', ''segment'', ''channel'', ''seg'',
          ''sub_segment'']),
      (''Current Status'', [''status'', ''currentstatus'']),
      (''Date of Hold'', [''dateofhold'', ''holddate'']),
      (''Held By'', [''heldby'', ''held_by'']),
      (''Hold Amount'', [''holdamount'', ''amount'', ''hold_amount'', ''amt'']),
      (''Date Of Relase'',
         [''releasedate'', ''dateofrelease'', ''daterelease'', ''release_date'', ''released_date'']),
      (''Released By'', [''releasedby'', ''released_by'', ''rel_by'']),
      (''Release Amount'', [''releaseamount'', ''release_amount'']),
      (''Reason of hold'', [''reason'', ''holdreason'', ''reason_code'']),
      (''FMU Remarks'', [''remarks'', ''fmuremarks'', ''comments'']),
      (''Closed Date'', [''closeddate'', ''dateclosed'', ''closed_date'']),
      (''Aging of Hold'', [''agingofhold'', ''aging_hold'', ''hold_aging'', ''aging'']),
      (''Aging between Hold & Release'', [''agingduration'', ''aging_between'', ''duration'']),
      (''Chain ID'', [''chainid'', ''chain'', ''chain_id'']),
      (''Group Name'', [''group'', ''groupname'', ''group_name'']),
      (''Team Lead (TL)'', [''tl'', ''teamlead'', ''team_lead'']),
      (''Final Seg'', [''finalseg'', ''final_segment'', ''final_seg'', ''channel'']),
      (''Org + MID'', [''orgmid'', ''mid'', ''org_mid'']),
      (''RM'', [''rm'', ''relationshipmanager'', ''relationship_manager''])]"

definition objectPrototypeKeys :: "string list" where
  "objectPrototypeKeys =
     [''constructor'', ''__defineGetter__'', ''__defineSetter__'', ''hasOwnProperty'',
      ''__lookupGetter__'', ''__lookupSetter__'', ''isPrototypeOf'', ''propertyIsEnumerable'',
      ''toString'', ''valueOf'', ''__proto__'', ''toLocaleString'']"

text \<open>Step 4 of both operations: does a sheet name fit the sheet type?\<close>

definition matchesType :: "sheetType \<Rightarrow> string \<Rightarrow> bool" where
  "matchesType ty n = includes_str (normalizeKey n) (toLowerCase (sheetToken ty))"

definition firstName :: "string list \<Rightarrow> string option" where
  "firstName names = (case names of [] \<Rightarrow> None | n # _ \<Rightarrow> Some n)"

text \<open>
  The sheet \<^verbatim>\<open>updateRowInMasterSheet\<close> works on; \<open>None\<close> is \<^verbatim>\<open>undefined\<close>, the first
  element of an empty \<^verbatim>\<open>SheetNames\<close>.
\<close>

definition findSheet :: "sheetType \<Rightarrow> string list \<Rightarrow> string option" where
  "findSheet ty existingNames =
     (case find (matchesType ty) existingNames of
        Some fuzzyMatch \<Rightarrow> if fuzzyMatch \<noteq> [] then Some fuzzyMatch else firstName existingNames
      | None \<Rightarrow> firstName existingNames)"

definition sheet_to_json :: "workbook \<Rightarrow> string option \<Rightarrow> MerchantRecord list" where
  "sheet_to_json wb sheetName =
     (case sheetName of
        None \<Rightarrow> []
      | Some n \<Rightarrow> (case map_of (Sheets wb) n of None \<Rightarrow> [] | Some rows \<Rightarrow> rows))"

definition columnsOf :: "MerchantRecord list \<Rightarrow> string list" where
  "columnsOf jsonData = (case jsonData of [] \<Rightarrow> [] | r # _ \<Rightarrow> Object_keys r)"

definition matchesMid :: "string \<Rightarrow> string \<Rightarrow> MerchantRecord \<Rightarrow> bool" where
  "matchesMid midColumn midToFind row =
     (normalizeKey (String_js (get_field row midColumn)) = normalizeKey midToFind)"

fun findIndex :: "('a \<Rightarrow> bool) \<Rightarrow> 'a list \<Rightarrow> nat option" where
  "findIndex p [] = None"
| "findIndex p (x # xs) =
     (if p x then Some 0 else case findIndex p xs of None \<Rightarrow> None | Some i \<Rightarrow> Some (Suc i))"

definition hasAlias :: "string list \<Rightarrow> string \<Rightarrow> bool" where
  "hasAlias aliases c = (normalizeKey c \<in> set aliases)"

definition orEmpty :: "string option \<Rightarrow> string" where
  "orEmpty found = (case found of Some c \<Rightarrow> c | None \<Rightarrow> [])"

text \<open>Step 7, for one form key: the column to overwrite (empty: none), or a TypeError.\<close>

definition targetColumn :: "string list \<Rightarrow> string \<Rightarrow> unit + string" where
  "targetColumn cols formKey =
     (let exact = (if formKey \<in> set cols then formKey else []);
          normalized = (if exact = [] then orEmpty (find (sameKey formKey) cols) else exact)
      in if normalized \<noteq> [] then Inr normalized
         else case map_of FIELD_MAPPINGS formKey of
                Some aliases \<Rightarrow> Inr (orEmpty (find (hasAlias aliases) cols))
              | None \<Rightarrow>
                  if formKey \<in> set objectPrototypeKeys \<and> cols \<noteq> [] then Inl () else Inr [])"

fun patchRow ::
  "string list \<Rightarrow> MerchantRecord \<Rightarrow> string list \<Rightarrow> MerchantRecord \<Rightarrow> unit + MerchantRecord" where
  "patchRow cols updatedData [] rowToUpdate = Inr rowToUpdate"
| "patchRow cols updatedData (formKey # rest) rowToUpdate =
     (if get_field updatedData formKey = JUndefined \<or> get_field updatedData formKey = JNull
      then patchRow cols updatedData rest rowToUpdate
      else case targetColumn cols formKey of
             Inl e \<Rightarrow> Inl e
           | Inr targetCol \<Rightarrow>
               patchRow cols updatedData rest
                 (if targetCol \<noteq> [] then set_field rowToUpdate targetCol (get_field updatedData formKey)
                  else rowToUpdate))"

definition sheetKey :: "string option \<Rightarrow> string" where
  "sheetKey sheetName = (case sheetName of Some n \<Rightarrow> n | None \<Rightarrow> ''undefined'')"

definition updateRowInMasterSheet ::
  "bool \<Rightarrow> handle_store \<Rightarrow> sheetType \<Rightarrow> string \<Rightarrow> MerchantRecord \<Rightarrow> outcome \<times> handle_store" where
  "updateRowInMasterSheet xlsx store ty midToFind updatedData =
     (if \<not> xlsx then (Failed LibraryNotLoaded, store)
      else if midToFind = [] then (Failed NoMerchantId, store)
      else case getMasterHandle store ty of
        None \<Rightarrow> (Failed NoLinkedResource, store)
      | Some fileHandle \<Rightarrow>
          if \<not> permission fileHandle \<and> \<not> grantOnRequest fileHandle
          then (Failed PermissionDenied, store)
          else case contents fileHandle of
            None \<Rightarrow> (Failed (UpdateError ReadFault), store)
          | Some wb \<Rightarrow>
              (let sheetName = findSheet ty (SheetNames wb);
                   jsonData = sheet_to_json wb sheetName;
                   cols = columnsOf jsonData
               in case findMidColumn cols of
                    None \<Rightarrow> (Failed ColumnNotFound, store)
                  | Some midColumn \<Rightarrow>
                      if midColumn = [] then (Failed ColumnNotFound, store)
                      else case findIndex (matchesMid midColumn midToFind) jsonData of
                        None \<Rightarrow> (Failed RowNotFound, store)
                      | Some rowIndex \<Rightarrow>
                          (case patchRow cols updatedData (Object_keys updatedData)
                                  (jsonData ! rowIndex) of
                             Inl e \<Rightarrow> (Failed (UpdateError PatchFault), store)
                           | Inr patched \<Rightarrow>
                               if writeFails fileHandle
                               then (Failed (UpdateError WriteFault), store)
                               else (Updated,
                                     writeFile store ty
                                       (wb\<lparr>Sheets := AList.update (sheetKey sheetName)
                                                      (jsonData[rowIndex := patched]) (Sheets wb)\<rparr>)))))"

text \<open>
  Step 5 of \<^verbatim>\<open>updateMasterSheet\<close> (the append operation): the sheet the new rows go to,
  and the workbook, which gains an empty sheet when no existing one is chosen.
\<close>

definition entriesName :: "sheetType \<Rightarrow> string" where
  "entriesName ty = (case ty of HOLD \<Rightarrow> ''Hold_Entries'' | RM \<Rightarrow> ''RM_Entries'')"

definition book_append_sheet :: "workbook \<Rightarrow> MerchantRecord list \<Rightarrow> string \<Rightarrow> workbook" where
  "book_append_sheet wb ws n =
     wb\<lparr>SheetNames := SheetNames wb @ [n], Sheets := AList.update n ws (Sheets wb)\<rparr>"

definition appendSheet :: "sheetType \<Rightarrow> workbook \<Rightarrow> string \<times> workbook" where
  "appendSheet ty wb =
     (if map_of (Sheets wb) (entriesName ty) \<noteq> None then (entriesName ty, wb)
      else case find (matchesType ty) (SheetNames wb) of
        Some fuzzyMatch \<Rightarrow>
          if fuzzyMatch \<noteq> [] then (fuzzyMatch, wb)
          else (case SheetNames wb of
                  [only] \<Rightarrow> (only, wb)
                | _ \<Rightarrow> (entriesName ty, book_append_sheet wb [] (entriesName ty)))
      | None \<Rightarrow>
          (case SheetNames wb of
             [only] \<Rightarrow> (only, wb)
           | _ \<Rightarrow> (entriesName ty, book_append_sheet wb [] (entriesName ty))))"

section \<open>Configuration import\<close>

text \<open>
  \<^verbatim>\<open>importSystemConfig(jsonString)\<close> parses a JSON document, checks it, and writes its
  profiles to the IndexedDB store \<^verbatim>\<open>user_profiles\<close> (key path \<^verbatim>\<open>id\<close>) and its active
  profile id to local storage. The model takes the result of \<^verbatim>\<open>JSON.parse\<close> (\<open>None\<close>
  when it throws a SyntaxError), the two stores as state, and two answers of the host:
  whether the database opens and whether the transaction commits.
\<close>

datatype json =
    JsNull
  | JsBool bool
  | JsNumber rat
  | JsString string
  | JsArray "json list"
  | JsObject "(string \<times> json) list"

fun truthy_json :: "json \<Rightarrow> bool" where
  "truthy_json JsNull = False"
| "truthy_json (JsBool b) = b"
| "truthy_json (JsNumber n) = (n \<noteq> 0)"
| "truthy_json (JsString s) = (s \<noteq> [])"
| "truthy_json (JsArray xs) = True"
| "truthy_json (JsObject kvs) = True"

text \<open>
  \<^verbatim>\<open>v.k\<close> for a key that no prototype defines: the own property of an object, and
  \<^verbatim>\<open>undefined\<close> (\<open>None\<close>) on every other value but \<^verbatim>\<open>null\<close>, where it raises.
\<close>

definition member :: "json \<Rightarrow> string \<Rightarrow> json option" where
  "member v k = (case v of JsObject kvs \<Rightarrow> map_of kvs k | _ \<Rightarrow> None)"

text \<open>A valid IndexedDB key among JSON values: a number, a string, or an array of keys.\<close>

fun validKey :: "json \<Rightarrow> bool" where
  "validKey (JsNumber n) = True"
| "validKey (JsString s) = True"
| "validKey (JsArray ks) = list_all validKey ks"
| "validKey v = False"

text \<open>
  \<^verbatim>\<open>store.put(profile)\<close> on a store with key path \<^verbatim>\<open>id\<close>: the key is the own property
  \<^verbatim>\<open>id\<close> of an object; without a valid one the call throws a DataError.
\<close>

definition put :: "(json \<times> json) list \<Rightarrow> json \<Rightarrow> (json \<times> json) list option" where
  "put store profile =
     (case profile of
        JsObject kvs \<Rightarrow>
          (case map_of kvs ''id'' of
             Some key \<Rightarrow> if validKey key then Some (AList.update key profile store) else None
           | None \<Rightarrow> None)
      | _ \<Rightarrow> None)"

text \<open>
  The loop over \<^verbatim>\<open>config.profiles\<close>: the store with the puts made so far, and whether
  the loop ran to its end (\<open>False\<close>: a put threw and the rest was skipped).
\<close>

fun putAll :: "(json \<times> json) list \<Rightarrow> json list \<Rightarrow> (json \<times> json) list \<times> bool" where
  "putAll store [] = (store, True)"
| "putAll store (profile # rest) =
     (case put store profile of
        None \<Rightarrow> (store, False)
      | Some store' \<Rightarrow> putAll store' rest)"

record config_stores =
  user_profiles :: "(json \<times> json) list"
  active_profile_id :: "json option"

datatype import_error =
    SyntaxError
  | TypeError
  | InvalidConfigurationFile
  | OpenError
  | DataError
  | TransactionError

definition setActive :: "json \<Rightarrow> config_stores \<Rightarrow> config_stores" where
  "setActive config st =
     (case member config ''activeProfileId'' of
        Some activeId \<Rightarrow> if truthy_json activeId then st\<lparr>active_profile_id := Some activeId\<rparr> else st
      | None \<Rightarrow> st)"

definition importSystemConfig ::
  "bool \<Rightarrow> bool \<Rightarrow> config_stores \<Rightarrow> json option \<Rightarrow> import_error option \<times> config_stores" where
  "importSystemConfig dbOpens txCommits st parsed =
     (case parsed of
        None \<Rightarrow> (Some SyntaxError, st)
      | Some config \<Rightarrow>
          if config = JsNull then (Some TypeError, st)
          else case member config ''profiles'' of
            None \<Rightarrow> (Some InvalidConfigurationFile, st)
          | Some profiles \<Rightarrow>
              if \<not> truthy_json profiles then (Some InvalidConfigurationFile, st)
              else case profiles of
                JsArray ps \<Rightarrow>
                  if \<not> dbOpens then (Some OpenError, st)
                  else
                    (let (queued, done) = putAll (user_profiles st) ps
                     in if \<not> done
                        then (Some DataError, if txCommits then st\<lparr>user_profiles := queued\<rparr> else st)
                        else if txCommits
                        then (None, (setActive config st)\<lparr>user_profiles := queued\<rparr>)
                        else (Some TransactionError, setActive config st))
              | _ \<Rightarrow> (Some InvalidConfigurationFile, st))"

text \<open>
  What the specification asks the import to check: the document has a \<open>profiles\<close> field
  and it is an array.
\<close>

definition profilesArray :: "json \<Rightarrow> json list option" where
  "profilesArray config =
     (case member config ''profiles'' of Some (JsArray ps) \<Rightarrow> Some ps | _ \<Rightarrow> None)"

section \<open>RecordReconciler: filling the entry form from a selected record\<close>

text \<open>
  The manual-entry component \<^verbatim>\<open>AddManualEntry\<close> receives the loaded tables and the active
  profile as props and keeps the active tab, the two forms and the suggestion lists in React
  state. \<^verbatim>\<open>populateFields\<close> is the handler of a selected suggestion: it gathers the selected
  record and the matching rows of the other tables in \<^verbatim>\<open>allMatches\<close> and fills the form of
  the active tab from them. The state is a record here and the handler returns the state
  after its \<^verbatim>\<open>set...\<close> calls.
\<close>

record UserProfile =
  profileId :: string
  profileName :: string
  defaultHeldBy :: string
  defaultPosEcom :: string
  masterFilename :: "string option"
  profileMappings :: "string \<rightharpoonup> (string \<rightharpoonup> string)"
  customOptions :: "string \<rightharpoonup> string list"

record HoldForm =
  mid :: string
  name :: string
  posEcom :: string
  rmName :: string
  channel :: string
  currentStatus :: string
  accountHold :: string
  dateHold :: string
  heldBy :: string
  holdAmount :: string
  dateRelease :: string
  releasedBy :: string
  releaseAmount :: string
  closedDate :: string
  reason :: string
  fmuRemarks :: string
  addedBy :: string

text \<open>The RM form; its fields \<^verbatim>\<open>name\<close> and \<^verbatim>\<open>tl\<close> carry a suffix here.\<close>

record RmForm =
  orgMid :: string
  chainId :: string
  name_rm :: string
  tl_rm :: string
  groupName :: string
  seg :: string
  finalSeg :: string
  rm :: string

record AddManualEntry =
  databases :: "ParsedDatabase list"
  activeProfile :: "UserProfile option"
  activeTab :: sheetType
  midSuggestions :: "MerchantRecord list"
  nameSuggestions :: "MerchantRecord list"
  holdForm :: HoldForm
  agingHold :: string
  agingDuration :: string
  rmForm :: RmForm

text \<open>
  The callback of \<^verbatim>\<open>db.data.find\<close>: the row's identifier, normalized, equals the normalized
  identifier of the selected record.
\<close>

definition hasNormalizedMid :: "string \<Rightarrow> string \<Rightarrow> MerchantRecord \<Rightarrow> bool" where
  "hasNormalizedMid dbMidKey normalizedMid row =
     (normalizeKey (String_js (get_field row dbMidKey)) = normalizedMid)"

text \<open>
  The body of \<^verbatim>\<open>databases.forEach\<close>, up to the value of \<^verbatim>\<open>match\<close>: nothing for the table the
  selected record comes from, nothing when the table has no identifier column, else the
  first row with the identifier.
\<close>

definition secondaryMatch ::
  "MerchantRecord \<Rightarrow> string \<Rightarrow> ParsedDatabase \<Rightarrow> MerchantRecord option" where
  "secondaryMatch initialRecord normalizedMid db =
     (if get_field initialRecord ''__sourceFile'' = JStr (fileName db) then None
      else case findMidColumn (columns db) of
             None \<Rightarrow> None
           | Some dbMidKey \<Rightarrow>
               if dbMidKey \<noteq> []
               then find (hasNormalizedMid dbMidKey normalizedMid) (data db)
               else None)"

definition pushMatch ::
  "MerchantRecord \<Rightarrow> string \<Rightarrow> ParsedDatabase \<Rightarrow> MerchantRecord list \<Rightarrow> MerchantRecord list" where
  "pushMatch initialRecord normalizedMid db matches =
     (case secondaryMatch initialRecord normalizedMid db of
        Some m \<Rightarrow> matches @ [m]
      | None \<Rightarrow> matches)"

definition allMatches :: "ParsedDatabase list \<Rightarrow> MerchantRecord \<Rightarrow> MerchantRecord list" where
  "allMatches dbs initialRecord =
     (case findMidColumn (Object_keys initialRecord) of
        None \<Rightarrow> [initialRecord]
      | Some midKey \<Rightarrow>
          if midKey \<noteq> []
          then (let normalizedMid = normalizeKey (String_js (get_field initialRecord midKey))
                in fold (pushMatch initialRecord normalizedMid) dbs [initialRecord])
          else [initialRecord])"

text \<open>
  \<^verbatim>\<open>findVal\<close>: the sources in order, and for each source the keys in order; a key gives the
  value stored under it, or else under the first key of the record with the same normalized
  name, when that value is defined and not blank.
\<close>

definition hasValue :: "jsval \<Rightarrow> bool" where
  "hasValue v = (v \<noteq> JUndefined \<and> trim (String_js v) \<noteq> [])"

definition keyValue :: "MerchantRecord \<Rightarrow> string \<Rightarrow> string option" where
  "keyValue record k =
     (if hasValue (get_field record k) then Some (String_js (get_field record k))
      else case find (sameKey k) (Object_keys record) of
             None \<Rightarrow> None
           | Some matchKey \<Rightarrow>
               if matchKey \<noteq> [] \<and> hasValue (get_field record matchKey)
               then Some (String_js (get_field record matchKey))
               else None)"

fun findInRecord :: "MerchantRecord \<Rightarrow> string list \<Rightarrow> string option" where
  "findInRecord record [] = None"
| "findInRecord record (k # keys) =
     (case keyValue record k of
        Some v \<Rightarrow> Some v
      | None \<Rightarrow> findInRecord record keys)"

fun findVal :: "MerchantRecord list \<Rightarrow> string list \<Rightarrow> string" where
  "findVal [] keys = []"
| "findVal (record # matches) keys =
     (case findInRecord record keys of
        Some v \<Rightarrow> v
      | None \<Rightarrow> findVal matches keys)"

text \<open>\<^verbatim>\<open>a || b\<close> on strings.\<close>

definition str_or :: "string \<Rightarrow> string \<Rightarrow> string" where
  "str_or a b = (if a \<noteq> [] then a else b)"

definition populateFields :: "host \<Rightarrow> AddManualEntry \<Rightarrow> MerchantRecord \<Rightarrow> AddManualEntry" where
  "populateFields h st initialRecord =
     (let matches = allMatches (databases st) initialRecord;
          midVal = str_or (findVal matches [''mid'', ''merchantid'', ''orgmid''])
                     (case activeTab st of HOLD \<Rightarrow> mid (holdForm st) | RM \<Rightarrow> orgMid (rmForm st));
          nameVal = str_or (findVal matches [''name'', ''merchantname''])
                      (case activeTab st of HOLD \<Rightarrow> name (holdForm st) | RM \<Rightarrow> name_rm (rmForm st));
          filled =
            (case activeTab st of
               HOLD \<Rightarrow>
                 st\<lparr>holdForm := (holdForm st)
                       \<lparr>mid := midVal,
                        name := nameVal,
                        posEcom := str_or (findVal matches [''pos'', ''posecom'', ''type''])
                                     (case activeProfile st of
                                        None \<Rightarrow> []
                                      | Some p \<Rightarrow> str_or (defaultPosEcom p) []),
                        rmName := findVal matches [''rm'', ''rmname'', ''relationshipmanager''],
                        channel := findVal matches [''channel'', ''segment'', ''finalseg''],
                        currentStatus := str_or (findVal matches [''current status'', ''status''])
                                           ''Active'',
                        accountHold := str_or (findVal matches
                                                 [''account / settlement hold'', ''hold type''])
                                         ''Account Hold'',
                        dateHold := parseExcelDate h
                                      (JStr (findVal matches [''date of hold'', ''hold date''])),
                        heldBy := str_or (findVal matches [''held by''])
                                    (case activeProfile st of
                                       None \<Rightarrow> []
                                     | Some p \<Rightarrow> str_or (defaultHeldBy p) []),
                        holdAmount := formatCurrency
                                        (JStr (findVal matches [''hold amount'', ''amount''])),
                        dateRelease := parseExcelDate h
                                         (JStr (findVal matches
                                                  [''date of relase'', ''release date'',
                                                   ''released date''])),
                        releasedBy := findVal matches [''released by''],
                        releaseAmount := formatCurrency
                                           (JStr (findVal matches [''release amount''])),
                        closedDate := parseExcelDate h (JStr (findVal matches [''closed date''])),
                        reason := findVal matches [''reason'', ''hold reason''],
                        fmuRemarks := findVal matches [''remarks'', ''fmu remarks''],
                        addedBy := findVal matches [''added by'', ''created by'']\<rparr>,
                    agingHold := findVal matches [''aging of hold'', ''aging''],
                    agingDuration := findVal matches [''aging between hold & release'', ''duration'']\<rparr>
             | RM \<Rightarrow>
                 st\<lparr>rmForm := (rmForm st)
                       \<lparr>orgMid := midVal,
                        name_rm := nameVal,
                        chainId := findVal matches [''chain id'', ''chain''],
                        tl_rm := findVal matches [''tl'', ''team lead''],
                        groupName := findVal matches [''group name'', ''group''],
                        seg := findVal matches [''seg'', ''segment''],
                        finalSeg := findVal matches [''final seg'', ''final segment''],
                        rm := findVal matches [''rm'', ''rmname'', ''relationshipmanager'']\<rparr>\<rparr>)
      in filled\<lparr>midSuggestions := [], nameSuggestions := []\<rparr>)"

section \<open>Example tables, workbooks and documents\<close>

definition example_config :: DbConfig where
  "example_config = \<lparr>midCol = ''MID'', nameCol = ''Merchant Name'', mappings = []\<rparr>"

definition example_configs :: "string \<rightharpoonup> DbConfig" where
  "example_configs = [''Hold_Jan.xlsx'' \<mapsto> example_config, ''RM_Master.xlsx'' \<mapsto> example_config]"

definition example_hold_table :: ParsedDatabase where
  "example_hold_table =
     \<lparr>fileName = ''Hold_Jan.xlsx'', rowCount = 2,
      data = [[(''MID'', JStr ''M100''), (''Merchant Name'', JStr ''Acme'')],
              [(''MID'', JStr ''M200''), (''Merchant Name'', JStr ''Bolt'')]],
      columns = [''MID'', ''Merchant Name'']\<rparr>"

definition example_rm_table :: ParsedDatabase where
  "example_rm_table =
     \<lparr>fileName = ''RM_Master.xlsx'', rowCount = 1,
      data = [[(''MID'', JStr ''M100''), (''RM Name'', JStr ''Dana'')]],
      columns = [''MID'', ''RM Name'']\<rparr>"

definition example_big_table :: ParsedDatabase where
  "example_big_table =
     \<lparr>fileName = ''Hold_Jan.xlsx'', rowCount = 20,
      data = replicate 20 [(''MID'', JStr ''M1'')],
      columns = [''MID'']\<rparr>"

definition example_selected :: MerchantRecord where
  "example_selected =
     [(''MID'', JStr ''M100''), (''Merchant Name'', JStr ''Acme''),
      (''date of hold'', JNum 45000), (''__sourceFile'', JStr ''Hold_Jan.xlsx'')]"

definition example_entry :: AddManualEntry where
  "example_entry =
     \<lparr>databases = [example_hold_table, example_rm_table], activeProfile = None,
      activeTab = HOLD, midSuggestions = [example_selected], nameSuggestions = [],
      holdForm =
        \<lparr>mid = ''M1'', name = [], posEcom = [], rmName = [], channel = [],
         currentStatus = ''Active'', accountHold = ''Account Hold'', dateHold = [], heldBy = [],
         holdAmount = [], dateRelease = [], releasedBy = [], releaseAmount = [],
         closedDate = [], reason = [], fmuRemarks = [], addedBy = []\<rparr>,
      agingHold = [], agingDuration = [],
      rmForm =
        \<lparr>orgMid = [], chainId = [], name_rm = [], tl_rm = [], groupName = [], seg = [],
         finalSeg = [], rm = []\<rparr>\<rparr>"

definition example_workbook :: workbook where
  "example_workbook =
     \<lparr>SheetNames = [''Sheet1'', ''Summary''],
      Sheets =
        [(''Sheet1'',
            [[(''MID'', JStr ''M100''), (''Status'', JStr ''Active'')],
             [(''MID'', JStr ''M200''), (''Status'', JStr ''Active'')]]),
         (''Summary'', [[(''Total'', JNum 2)]])]\<rparr>"

definition example_store :: handle_store where
  "example_store =
     [(''master_excel_HOLD'',
        \<lparr>permission = True, grantOnRequest = False, contents = Some example_workbook,
         writeFails = False\<rparr>)]"

definition example_stores :: config_stores where
  "example_stores =
     \<lparr>user_profiles =
        [(JsString ''p1'', JsObject [(''id'', JsString ''p1''), (''name'', JsString ''Ann'')])],
      active_profile_id = Some (JsString ''p1'')\<rparr>"

definition example_bad_config :: json where
  "example_bad_config =
     JsObject [(''version'', JsNumber 1), (''activeProfileId'', JsString ''p2''),
               (''profiles'', JsObject [(''id'', JsString ''p2'')])]"

definition example_good_config :: json where
  "example_good_config =
     JsObject [(''version'', JsNumber 1), (''activeProfileId'', JsString ''p2''),
               (''profiles'', JsArray [JsObject [(''id'', JsString ''p2''), (''name'', JsString ''Bo'')]])]"

definition example_host :: host where
  "example_host =
     \<lparr>LocalTZA = (\<lambda>t. 14400000),
      Date_parse = (\<lambda>s. if s = ''Mar/5/2024'' then Some 1709582400000 else None)\<rparr>"

section \<open>Properties of the key normalizer\<close>

lemma keyChar_not_upper: "keyChar c \<Longrightarrow> c \<notin> set ''ABCDEFGHIJKLMNOPQRSTUVWXYZ''"
  unfolding keyChar_def by auto

lemma lowerChar_keyChar: "keyChar c \<Longrightarrow> lowerChar c = c"
proof -
  assume k: "keyChar c"
  have "map_of (zip ''ABCDEFGHIJKLMNOPQRSTUVWXYZ'' ''abcdefghijklmnopqrstuvwxyz'') c = None"
    using keyChar_not_upper [OF k] by (subst map_of_zip_is_None) simp_all
  then show ?thesis by (simp add: lowerChar_def)
qed

lemma normalizeKey_string: "normalizeKey s = filter keyChar (toLowerCase s)"
  by (cases "s = []") (simp_all add: normalizeKey_def normalizeKey_any_def js_or_def toLowerCase_def)

lemma toLowerCase_key_chars: "toLowerCase (filter keyChar t) = filter keyChar t"
  unfolding toLowerCase_def by (induction t) (simp_all add: lowerChar_keyChar)

lemma normalizeKey_fixes_keys: "normalizeKey (filter keyChar t) = filter keyChar t"
  by (simp add: normalizeKey_string toLowerCase_key_chars)

text \<open>
  Claim C9. The key normalizer is idempotent: normalizing a key that is already the result of
  normalizing any input (a string, or a missing, null or otherwise falsy value) gives the same
  key. On a string it lower-cases and keeps exactly the characters of \<open>[a-z0-9]\<close>, so a
  normalized key contains nothing else; it is defined on every input, and the empty string,
  \<^verbatim>\<open>undefined\<close> and \<^verbatim>\<open>null\<close> give the empty key.
\<close>

theorem normalizeKey_idempotent:
  "normalizeKey (normalizeKey_any v) = normalizeKey_any v
   \<and> normalizeKey (normalizeKey s) = normalizeKey s
   \<and> normalizeKey s = filter keyChar (toLowerCase s)
   \<and> filter (\<lambda>c. \<not> keyChar c) (normalizeKey s) = []
   \<and> normalizeKey [] = [] \<and> normalizeKey_any JUndefined = [] \<and> normalizeKey_any JNull = []"
proof -
  have a: "normalizeKey (normalizeKey_any v) = normalizeKey_any v"
    unfolding normalizeKey_any_def by (rule normalizeKey_fixes_keys)
  have b: "normalizeKey (normalizeKey s) = normalizeKey s"
    by (simp add: normalizeKey_string toLowerCase_key_chars)
  have c: "filter (\<lambda>c. \<not> keyChar c) (normalizeKey s) = []"
    by (simp add: normalizeKey_string)
  have d: "normalizeKey [] = [] \<and> normalizeKey_any JUndefined = [] \<and> normalizeKey_any JNull = []"
    by (simp add: normalizeKey_def normalizeKey_any_def js_or_def toLowerCase_def)
  from a b c d normalizeKey_string show ?thesis by blast
qed

section \<open>Properties of the record search\<close>

lemma get_set_field: "get_field (set_field r k v) k = v"
  by (simp add: get_field_def set_field_def update_conv')

lemma get_set_field_other: "k' \<noteq> k \<Longrightarrow> get_field (set_field r k v) k' = get_field r k'"
  by (simp add: get_field_def set_field_def update_conv')

lemma push_matches_set:
  "r \<in> set (push_matches src ms results) \<Longrightarrow> r \<in> set results \<or> sourced src r"
proof (induction ms arbitrary: results)
  case Nil
  then show ?case by simp
next
  case (Cons m ms)
  show ?case
  proof (cases "length results \<ge> 20")
    case True
    with Cons.prems show ?thesis by simp
  next
    case False
    with Cons.prems
    have "r \<in> set (push_matches src ms (results @ [set_field m ''__sourceFile'' (JStr src)]))"
      by simp
    from Cons.IH [OF this] show ?thesis
      by (auto simp: sourced_def get_set_field)
  qed
qed

lemma search_loop_set:
  "r \<in> set (search_loop cfgs k ty dbs results) \<Longrightarrow>
   r \<in> set results \<or> (\<exists>db \<in> set dbs. sourced (fileName db) r)"
proof (induction dbs arbitrary: results)
  case Nil
  then show ?case by simp
next
  case (Cons db dbs)
  show ?case
  proof (cases "length results \<ge> 20")
    case True
    with Cons.prems show ?thesis by simp
  next
    case False
    show ?thesis
    proof (cases "cfgs (fileName db)")
      case None
      with False Cons.prems have "r \<in> set (search_loop cfgs k ty dbs results)" by simp
      from Cons.IH [OF this] show ?thesis by auto
    next
      case (Some config)
      let ?col = "case ty of Mid \<Rightarrow> midCol config | Name \<Rightarrow> nameCol config"
      show ?thesis
      proof (cases "?col = []")
        case True
        with False Some Cons.prems have "r \<in> set (search_loop cfgs k ty dbs results)" by simp
        from Cons.IH [OF this] show ?thesis by auto
      next
        case nonempty: False
        obtain ms where "r \<in> set (search_loop cfgs k ty dbs (push_matches (fileName db) ms results))"
          using False Some nonempty Cons.prems by (auto simp: Let_def)
        from Cons.IH [OF this] show ?thesis
          by (auto dest: push_matches_set)
      qed
    qed
  qed
qed

lemma push_matches_length: "length results \<le> 20 \<Longrightarrow> length (push_matches src ms results) \<le> 20"
  by (induction ms arbitrary: results) auto

lemma search_loop_length:
  "length results \<le> 20 \<Longrightarrow> length (search_loop cfgs k ty dbs results) \<le> 20"
  by (induction dbs arbitrary: results) (auto simp: Let_def push_matches_length split: option.splits)

lemma search_loop_full:
  "length results \<ge> 20 \<Longrightarrow> search_loop cfgs k ty dbs results = results"
  by (cases dbs) simp_all

lemma search_loop_append:
  "search_loop cfgs k ty (xs @ ys) results = search_loop cfgs k ty ys (search_loop cfgs k ty xs results)"
proof (induction xs arbitrary: results)
  case Nil
  then show ?case by simp
next
  case (Cons db xs)
  show ?case
  proof (cases "length results \<ge> 20")
    case True
    then show ?thesis by (simp add: search_loop_full)
  next
    case False
    then show ?thesis by (simp add: Cons.IH Let_def split: option.splits)
  qed
qed

text \<open>
  Claim C6. Every record the search returns carries, as its \<open>__sourceFile\<close>, the name of
  a loaded table whose lower-cased name contains \<open>hold\<close>; no returned record is sourced
  from \<open>RM_Master.xlsx\<close>, whatever the tables, their configurations and the query.
\<close>

theorem searchRecords_only_hold_tables:
  "\<forall>r \<in> set (searchRecords tables configs query ty).
     (\<exists>db \<in> set tables.
        includes_str (toLowerCase (fileName db)) ''hold'' \<and> sourced (fileName db) r)
     \<and> \<not> sourced ''RM_Master.xlsx'' r"
proof
  fix r
  assume "r \<in> set (searchRecords tables configs query ty)"
  then have "r \<in> set (search_loop configs (normalizeKey query) ty (holdDatabases tables) [])"
    by (simp add: searchRecords_def split: if_splits)
  from search_loop_set [OF this]
  obtain db where db: "db \<in> set (holdDatabases tables)" and src: "sourced (fileName db) r"
    by auto
  from db have mem: "db \<in> set tables"
    and hold: "includes_str (toLowerCase (fileName db)) ''hold''"
    by (simp_all add: holdDatabases_def)
  have "\<not> includes_str (toLowerCase ''RM_Master.xlsx'') ''hold''"
    by (simp add: toLowerCase_def lowerChar_def)
  with hold have "fileName db \<noteq> ''RM_Master.xlsx''" by metis
  with src have "\<not> sourced ''RM_Master.xlsx'' r" by (simp add: sourced_def)
  with mem hold src
  show "(\<exists>db \<in> set tables.
        includes_str (toLowerCase (fileName db)) ''hold'' \<and> sourced (fileName db) r)
     \<and> \<not> sourced ''RM_Master.xlsx'' r"
    by blast
qed

theorem searchRecords_only_hold_tables_witness:
  "searchRecords [example_hold_table, example_rm_table] example_configs ''m-100'' Mid
     = [[(''MID'', JStr ''M100''), (''Merchant Name'', JStr ''Acme''),
         (''__sourceFile'', JStr ''Hold_Jan.xlsx'')]]
   \<and> (\<exists>db \<in> set [example_hold_table, example_rm_table].
        includes_str (toLowerCase (fileName db)) ''hold''
        \<and> sourced (fileName db) [(''MID'', JStr ''M100''), (''Merchant Name'', JStr ''Acme''),
         (''__sourceFile'', JStr ''Hold_Jan.xlsx'')])
   \<and> \<not> sourced ''RM_Master.xlsx'' [(''MID'', JStr ''M100''), (''Merchant Name'', JStr ''Acme''),
         (''__sourceFile'', JStr ''Hold_Jan.xlsx'')]"
proof -
  have run: "searchRecords [example_hold_table, example_rm_table] example_configs ''m-100'' Mid
     = [[(''MID'', JStr ''M100''), (''Merchant Name'', JStr ''Acme''),
         (''__sourceFile'', JStr ''Hold_Jan.xlsx'')]]"
    by code_simp
  from searchRecords_only_hold_tables
    [of "[example_hold_table, example_rm_table]" example_configs "''m-100''" Mid]
  show ?thesis unfolding run by simp
qed

text \<open>
  Claim C7. The search returns at most 20 records. Once 20 have been gathered the scan
  stops: the loop leaves a full result as it is, so tables that come after the tables that
  filled it add nothing. A query that is empty after trimming gives the empty list.
\<close>

theorem searchRecords_cap:
  "length (searchRecords tables configs query ty) \<le> 20
   \<and> (length (searchRecords tables configs query ty) = 20 \<longrightarrow>
        searchRecords (tables @ later) configs query ty
          = searchRecords tables configs query ty)
   \<and> (20 \<le> length results \<longrightarrow> search_loop configs searchKey ty dbs results = results)
   \<and> (trim query = [] \<longrightarrow> searchRecords tables configs query ty = [])"
proof -
  have len: "length (searchRecords tables configs query ty) \<le> 20"
    by (simp add: searchRecords_def search_loop_length)
  have starve: "searchRecords (tables @ later) configs query ty
          = searchRecords tables configs query ty"
    if full: "length (searchRecords tables configs query ty) = 20"
  proof -
    from full have ne: "tables \<noteq> []" "trim query \<noteq> []"
      by (auto simp: searchRecords_def split: if_splits)
    then have run: "searchRecords tables configs query ty
        = search_loop configs (normalizeKey query) ty (holdDatabases tables) []"
      by (simp add: searchRecords_def)
    from ne have "searchRecords (tables @ later) configs query ty
        = search_loop configs (normalizeKey query) ty (holdDatabases later)
            (searchRecords tables configs query ty)"
      by (simp add: searchRecords_def holdDatabases_def search_loop_append)
    also have "\<dots> = searchRecords tables configs query ty"
      using full by (simp add: search_loop_full)
    finally show ?thesis .
  qed
  have blank: "searchRecords tables configs query ty = []" if "trim query = []"
    using that by (simp add: searchRecords_def)
  from len starve blank search_loop_full show ?thesis by blast
qed

theorem searchRecords_cap_witness:
  "length (searchRecords [example_big_table] example_configs ''1'' Mid) = 20
   \<and> searchRecords ([example_big_table] @ [example_hold_table]) example_configs ''1'' Mid
       = searchRecords [example_big_table] example_configs ''1'' Mid
   \<and> search_loop example_configs ''1'' Mid [example_hold_table]
        (searchRecords [example_big_table] example_configs ''1'' Mid)
       = searchRecords [example_big_table] example_configs ''1'' Mid
   \<and> trim [CHR 0x20, CHR 0x09] = []
   \<and> searchRecords [example_big_table] example_configs [CHR 0x20, CHR 0x09] Mid = []"
proof -
  have full: "length (searchRecords [example_big_table] example_configs ''1'' Mid) = 20"
    by code_simp
  have blank: "trim [CHR 0x20, CHR 0x09] = []"
    by code_simp
  from searchRecords_cap [of "[example_big_table]" example_configs "''1''" Mid
      "[example_hold_table]" "searchRecords [example_big_table] example_configs ''1'' Mid"
      "''1''" "[example_hold_table]"]
    searchRecords_cap [of "[example_big_table]" example_configs "[CHR 0x20, CHR 0x09]" Mid]
    full blank
  show ?thesis by simp
qed

section \<open>Properties of the rounding\<close>

lemma pow2_nonpos: "q \<le> 0 \<Longrightarrow> pow2 q = 1 / 2 ^ nat (- q)"
  by (cases "q = 0") (simp_all add: pow2_def)

lemma roundHalfEven_int: "roundHalfEven (rat_of_int j) = j"
  by (simp add: roundHalfEven_def)

lemma floorLog2_int_le:
  assumes "0 < k" and "k < 2 ^ 53"
  shows "floorLog2 (rat_of_int k) \<le> 52"
proof -
  from assms(2) have "bitlen k \<le> 53"
    by (simp add: bitlen_le_iff_power)
  moreover have "bitlen 1 = 1" by (simp add: bitlen_alt_def)
  ultimately have "bitlen (fst (quotient_of (rat_of_int k)))
      - bitlen (snd (quotient_of (rat_of_int k))) \<le> 52"
    by simp
  then show ?thesis
    by (simp add: floorLog2_def Let_def)
qed

lemma binary64_int:
  assumes "0 < k" and "k < 2 ^ 53"
  shows "binary64 (rat_of_int k) = rat_of_int k"
proof -
  define q where "q = max (floorLog2 (rat_of_int k) - 52) (- 1074)"
  from floorLog2_int_le [OF assms] have q: "q \<le> 0"
    by (simp add: q_def)
  have "rat_of_int k / pow2 q = rat_of_int (k * 2 ^ nat (- q))"
    by (simp add: pow2_nonpos [OF q])
  then have "roundHalfEven (rat_of_int k / pow2 q) = k * 2 ^ nat (- q)"
    by (simp only: roundHalfEven_int)
  then have "rat_of_int (roundHalfEven (rat_of_int k / pow2 q)) * pow2 q = rat_of_int k"
    by (simp add: pow2_nonpos [OF q])
  with assms(1) show ?thesis
    by (simp add: binary64_def Let_def q_def)
qed

lemma fl_int: "\<bar>k\<bar> < 2 ^ 53 \<Longrightarrow> fl (rat_of_int k) = rat_of_int k"
proof (cases "k = 0")
  case True
  then show ?thesis by (simp add: fl_def binary64_def)
next
  case False
  assume bound: "\<bar>k\<bar> < 2 ^ 53"
  show ?thesis
  proof (cases "0 < k")
    case True
    with bound binary64_int [of k] show ?thesis by (simp add: fl_def)
  next
    case neg: False
    with False bound binary64_int [of "- k"] show ?thesis by (simp add: fl_def)
  qed
qed

section \<open>Properties of date and currency normalization\<close>

lemma formatMDY_Day: "Day a = Day b \<Longrightarrow> formatMDY a = formatMDY b"
  by (simp add: formatMDY_def YearFromTime_def MonthFromTime_def DateFromTime_def
      DayWithinYear_def InLeapYear_def)

lemma Day_within:
  assumes "0 \<le> r" and "r < 86400000"
  shows "Day (d * 86400000 + r) = d"
  unfolding Day_def msPerDay_def
proof (rule int_div_pos_eq [where r = r])
  show "d * 86400000 + r = 86400000 * d + r" by simp
qed (use assms in simp_all)

lemma Math_round_int: "Math_round (rat_of_int k) = k"
  by (simp add: Math_round_def floor_unique)

lemma serialDate_int:
  assumes "30000 < n" and "n < 60000"
  shows "serialDate h (Finite False (rat_of_int n))
         = Some (formatMDY (LocalTime h ((n - 25569) * 86400000 + 43200000)))"
proof -
  have e1: "rat_of_int n - 25569 = rat_of_int (n - 25569)"
    by simp
  have e2: "rat_of_int (n - 25569) * 86400 = rat_of_int ((n - 25569) * 86400)"
    by simp
  have e3: "rat_of_int ((n - 25569) * 86400) * 1000 = rat_of_int ((n - 25569) * 86400000)"
    by simp
  from assms have bounds: "\<bar>n - 25569\<bar> < 2 ^ 53" "\<bar>(n - 25569) * 86400\<bar> < 2 ^ 53"
    "\<bar>(n - 25569) * 86400000\<bar> < 2 ^ 53"
    by simp_all
  have b1: "fl (rat_of_int (n - 25569)) = rat_of_int (n - 25569)"
    by (rule fl_int [OF bounds(1)])
  have b2: "fl (rat_of_int ((n - 25569) * 86400)) = rat_of_int ((n - 25569) * 86400)"
    by (rule fl_int [OF bounds(2)])
  have b3: "fl (rat_of_int ((n - 25569) * 86400000)) = rat_of_int ((n - 25569) * 86400000)"
    by (rule fl_int [OF bounds(3)])
  have round: "Math_round (fl (fl (fl (rat_of_int n - 25569) * 86400) * 1000))
      = (n - 25569) * 86400000"
    by (simp only: e1 b1 e2 b2 e3 b3 Math_round_int)
  from assms have "validTime ((n - 25569) * 86400000 + 43200000)"
    by (simp add: validTime_def)
  with assms round show ?thesis
    by (simp add: serialDate_def numValue_def Let_def)
qed

lemma serialDate_NaN: "serialDate h NaN = None"
  by (simp add: serialDate_def)

lemma number_of_45000: "Number_js (trim (String_js (JNum 45000))) = Finite False (rat_of_int 45000)"
  by code_simp

lemma format_day_19431: "formatMDY (19431 * 86400000) = ''03/15/2023''"
  by code_simp

lemma format_day_19432: "formatMDY (19432 * 86400000) = ''03/16/2023''"
  by code_simp

lemma validMDY_15: "validMDY ''03/15/2023''"
  by code_simp

lemma validMDY_16: "validMDY ''03/16/2023''"
  by code_simp

lemma formatMDY_known_days:
  "formatMDY 0 = ''01/01/1970''"
  "formatMDY (- 1) = ''12/31/1969''"
  "formatMDY 951782400000 = ''02/29/2000''"
  "formatMDY 1709251199999 = ''02/29/2024''"
  "formatMDY 4102444800000 = ''01/01/2100''"
  by code_simp+

lemma format_day_19787: "formatMDY (19787 * 86400000) = ''03/05/2024''"
  by code_simp

lemma parseExcelDate_45000:
  "parseExcelDate h (JNum 45000) = formatMDY (LocalTime h 1678881600000)"
proof -
  have "serialDate h (Number_js (trim (String_js (JNum 45000))))
        = Some (formatMDY (LocalTime h ((45000 - 25569) * 86400000 + 43200000)))"
    unfolding number_of_45000 by (rule serialDate_int) simp_all
  moreover have "trim (String_js (JNum 45000)) \<noteq> []"
    by code_simp
  ultimately show ?thesis
    by (simp add: parseExcelDate_def Let_def)
qed

text \<open>
  Claim C4. Date normalization: the Excel serial \<open>45000\<close> gives a string of shape
  \<open>MM/DD/YYYY\<close> in every time zone (offsets from 12 hours behind to 14 hours ahead of
  UTC), namely \<open>03/15/2023\<close> whenever the offset is less than 12 hours ahead;
  \<open>2024-03-05\<close> gives \<open>03/05/2024\<close>; \<open>Mar/5/2024\<close> gives \<open>03/05/2024\<close> when the
  host's \<^verbatim>\<open>Date\<close> constructor reads that string as a time of 5 March 2024 in local
  time (the parsing of such strings is left to the host by the language standard); and an
  integral serial \<open>n\<close> between 30000 and 60000 is the calendar day \<open>n\<close> days after
  30 December 1899, which is day \<open>-25569\<close> from 1 January 1970: the time stamp is noon of
  that day in UTC, so any offset of less than 12 hours keeps the local date on it.
\<close>

theorem parseExcelDate_normalizes:
  "(- 43200000 \<le> LocalTZA h 1678881600000 \<and> LocalTZA h 1678881600000 \<le> 50400000 \<longrightarrow>
      validMDY (parseExcelDate h (JNum 45000)))
   \<and> (- 43200000 \<le> LocalTZA h 1678881600000 \<and> LocalTZA h 1678881600000 < 43200000 \<longrightarrow>
      parseExcelDate h (JNum 45000) = ''03/15/2023'')
   \<and> parseExcelDate h (JStr ''2024-03-05'') = ''03/05/2024''
   \<and> (Date_parse h ''Mar/5/2024'' = Some t \<and> validTime t \<and> Day (LocalTime h t) = 19787 \<longrightarrow>
      parseExcelDate h (JStr ''Mar/5/2024'') = ''03/05/2024'')
   \<and> (30000 < n \<and> n < 60000 \<and> v \<noteq> JNull \<and> v \<noteq> JUndefined
        \<and> Number_js (trim (String_js v)) = Finite False (rat_of_int n)
        \<and> - 43200000 \<le> LocalTZA h ((n - 25569) * 86400000 + 43200000)
        \<and> LocalTZA h ((n - 25569) * 86400000 + 43200000) < 43200000 \<longrightarrow>
      parseExcelDate h v = formatMDY ((n - 25569) * msPerDay))
   \<and> formatMDY (- 25569 * msPerDay) = ''12/30/1899''"
proof -
  let ?t = "1678881600000 :: int"
  have t: "LocalTime h ?t = 19431 * 86400000 + (43200000 + LocalTZA h ?t)"
    by (simp add: LocalTime_def)
  have a: "validMDY (parseExcelDate h (JNum 45000))"
    if lo: "- 43200000 \<le> LocalTZA h ?t" and hi: "LocalTZA h ?t \<le> 50400000"
  proof (cases "LocalTZA h ?t < 43200000")
    case True
    with lo have "Day (LocalTime h ?t) = 19431"
      unfolding t by (intro Day_within) simp_all
    then have "Day (LocalTime h ?t) = Day (19431 * 86400000)"
      by (simp add: Day_def msPerDay_def)
    from formatMDY_Day [OF this] have "parseExcelDate h (JNum 45000) = ''03/15/2023''"
      by (simp only: parseExcelDate_45000 format_day_19431)
    then show ?thesis by (simp only: validMDY_15)
  next
    case False
    have "LocalTime h ?t = 19432 * 86400000 + (LocalTZA h ?t - 43200000)"
      by (simp add: LocalTime_def)
    moreover from False hi have "Day (19432 * 86400000 + (LocalTZA h ?t - 43200000)) = 19432"
      by (intro Day_within) simp_all
    ultimately have "Day (LocalTime h ?t) = Day (19432 * 86400000)"
      by (simp add: Day_def msPerDay_def)
    from formatMDY_Day [OF this] have "parseExcelDate h (JNum 45000) = ''03/16/2023''"
      by (simp only: parseExcelDate_45000 format_day_19432)
    then show ?thesis by (simp only: validMDY_16)
  qed
  have b: "parseExcelDate h (JNum 45000) = ''03/15/2023''"
    if lo: "- 43200000 \<le> LocalTZA h ?t" and hi: "LocalTZA h ?t < 43200000"
  proof -
    from lo hi have "Day (LocalTime h ?t) = 19431"
      unfolding t by (intro Day_within) simp_all
    then have "Day (LocalTime h ?t) = Day (19431 * 86400000)"
      by (simp add: Day_def msPerDay_def)
    from formatMDY_Day [OF this] show ?thesis
      by (simp only: parseExcelDate_45000 format_day_19431)
  qed
  have c: "parseExcelDate h (JStr ''2024-03-05'') = ''03/05/2024''"
  proof -
    have str: "trim (String_js (JStr ''2024-03-05'')) = ''2024-03-05''"
      by code_simp
    have nan: "Number_js ''2024-03-05'' = NaN"
      by code_simp
    have shape: "isoDateShape ''2024-03-05''"
      by code_simp
    have parts: "split_on (CHR ''-'') ''2024-03-05'' = [''2024'', ''03'', ''05'']"
      by code_simp
    show ?thesis
      unfolding parseExcelDate_def str
      by (simp add: Let_def nan serialDate_NaN shape parts part_def)
  qed
  have d: "parseExcelDate h (JStr ''Mar/5/2024'') = ''03/05/2024''"
    if parse: "Date_parse h ''Mar/5/2024'' = Some t" and valid: "validTime t"
      and day: "Day (LocalTime h t) = 19787"
  proof -
    have str: "trim (String_js (JStr ''Mar/5/2024'')) = ''Mar/5/2024''"
      by code_simp
    have "Number_js ''Mar/5/2024'' = NaN"
      by code_simp
    then have nan: "serialDate h (Number_js ''Mar/5/2024'') = None"
      by (simp add: serialDate_NaN)
    have shape: "\<not> isoDateShape ''Mar/5/2024''" "monDateShape ''Mar/5/2024''"
      by code_simp+
    from day have "Day (LocalTime h t) = Day (19787 * 86400000)"
      by (simp add: Day_def msPerDay_def)
    from formatMDY_Day [OF this] have "formatMDY (LocalTime h t) = ''03/05/2024''"
      by (simp only: format_day_19787)
    with parse valid nan shape show ?thesis
      unfolding parseExcelDate_def str by (simp add: Let_def)
  qed
  have e: "parseExcelDate h v = formatMDY ((n - 25569) * msPerDay)"
    if range: "30000 < n" "n < 60000" and v: "v \<noteq> JNull" "v \<noteq> JUndefined"
      and num: "Number_js (trim (String_js v)) = Finite False (rat_of_int n)"
      and lo: "- 43200000 \<le> LocalTZA h ((n - 25569) * 86400000 + 43200000)"
      and hi: "LocalTZA h ((n - 25569) * 86400000 + 43200000) < 43200000"
  proof -
    let ?s = "(n - 25569) * 86400000 + 43200000"
    have nonempty: "trim (String_js v) \<noteq> []"
    proof
      assume empty: "trim (String_js v) = []"
      have "Number_js [] = Finite False 0"
        by (simp add: Number_js_def trim_def)
      with empty num range show False by simp
    qed
    have "LocalTime h ?s = (n - 25569) * 86400000 + (43200000 + LocalTZA h ?s)"
      by (simp add: LocalTime_def)
    moreover from lo hi
    have "Day ((n - 25569) * 86400000 + (43200000 + LocalTZA h ?s)) = n - 25569"
      by (intro Day_within) simp_all
    ultimately have "Day (LocalTime h ?s) = Day ((n - 25569) * msPerDay)"
      by (simp add: Day_def msPerDay_def)
    from formatMDY_Day [OF this] serialDate_int [OF range, of h]
    have "serialDate h (Finite False (rat_of_int n)) = Some (formatMDY ((n - 25569) * msPerDay))"
      by (simp only:)
    with num have "serialDate h (Number_js (trim (String_js v)))
        = Some (formatMDY ((n - 25569) * msPerDay))"
      by (simp only:)
    with v nonempty show ?thesis
      by (simp add: parseExcelDate_def Let_def)
  qed
  have f: "formatMDY (- 25569 * msPerDay) = ''12/30/1899''"
    by code_simp
  from a b c d e f show ?thesis by blast
qed

theorem parseExcelDate_normalizes_witness:
  "- 43200000 \<le> LocalTZA example_host 1678881600000
   \<and> LocalTZA example_host 1678881600000 < 43200000
   \<and> validMDY (parseExcelDate example_host (JNum 45000))
   \<and> parseExcelDate example_host (JNum 45000) = ''03/15/2023''
   \<and> Date_parse example_host ''Mar/5/2024'' = Some 1709582400000
   \<and> validTime 1709582400000
   \<and> Day (LocalTime example_host 1709582400000) = 19787
   \<and> parseExcelDate example_host (JStr ''Mar/5/2024'') = ''03/05/2024''
   \<and> Number_js (trim (String_js (JStr ''45000''))) = Finite False (rat_of_int 45000)
   \<and> parseExcelDate example_host (JStr ''45000'') = formatMDY ((45000 - 25569) * msPerDay)"
proof -
  have tz: "LocalTZA example_host t = 14400000" for t
    by (simp add: example_host_def)
  have parse: "Date_parse example_host ''Mar/5/2024'' = Some 1709582400000"
    by (simp add: example_host_def)
  have valid: "validTime 1709582400000"
    by (simp add: validTime_def)
  have day: "Day (LocalTime example_host 1709582400000) = 19787"
    by (simp add: LocalTime_def tz Day_def msPerDay_def)
  have num: "Number_js (trim (String_js (JStr ''45000''))) = Finite False (rat_of_int 45000)"
    by code_simp
  from parseExcelDate_normalizes [of example_host 1709582400000 45000 "JStr ''45000''"]
    tz parse valid day num validMDY_15
  show ?thesis by simp
qed

text \<open>
  Claim C5. Currency normalization: \<open>1200.5\<close> gives \<open>1,200.50\<close>; \<open>1,200.50\<close>, which
  already has a comma, a point and two characters after the point, is returned as it is; and
  any value whose cleaned text (digits, points and minus signs only) does not start with a
  number is returned verbatim, as the string \<^verbatim>\<open>String(val)\<close>.
\<close>

theorem formatCurrency_normalizes:
  "formatCurrency (JStr ''1200.5'') = ''1,200.50''
   \<and> formatCurrency (JStr ''1,200.50'') = ''1,200.50''
   \<and> (parseFloat (filter currencyChar s) = NaN \<longrightarrow> formatCurrency (JStr s) = s)
   \<and> (v \<noteq> JUndefined \<and> v \<noteq> JNull \<and> parseFloat (filter currencyChar (String_js v)) = NaN \<longrightarrow>
        formatCurrency v = String_js v)"
proof -
  have a: "formatCurrency (JStr ''1200.5'') = ''1,200.50''"
    by code_simp
  have b: "formatCurrency (JStr ''1,200.50'') = ''1,200.50''"
    by code_simp
  have d: "formatCurrency v = String_js v"
    if "v \<noteq> JUndefined" "v \<noteq> JNull" "parseFloat (filter currencyChar (String_js v)) = NaN"
    for v
    using that by (auto simp: formatCurrency_def Let_def isNaN_def)
  have c: "formatCurrency (JStr s) = s" if "parseFloat (filter currencyChar s) = NaN"
    using d [of "JStr s"] that by simp
  from a b c d show ?thesis by blast
qed

theorem formatCurrency_normalizes_witness:
  "parseFloat (filter currencyChar ''N/A'') = NaN
   \<and> formatCurrency (JStr ''N/A'') = ''N/A''
   \<and> parseFloat (filter currencyChar (String_js (JBool True))) = NaN
   \<and> formatCurrency (JBool True) = ''true''"
proof -
  have a: "parseFloat (filter currencyChar ''N/A'') = NaN"
    by code_simp
  have b: "parseFloat (filter currencyChar (String_js (JBool True))) = NaN"
    by code_simp
  from formatCurrency_normalizes [of "''N/A''" "JBool True"] a b
  show ?thesis by simp
qed

text \<open>
  Claim C10, as stated, fails: the value is trimmed before anything else, so a numeric
  string written with surrounding blanks, such as \<open>70000\<close> between two spaces, is out of the
  serial range, has none of the date shapes, and comes back without its blanks rather than
  unchanged.
\<close>

theorem parseExcelDate_unchanged_counterexample:
  "Number_js '' 70000 '' = Finite False 70000
   \<and> \<not> isoDateShape '' 70000 '' \<and> \<not> monDateShape '' 70000 ''
   \<and> \<not> isoDateShape (trim '' 70000 '') \<and> \<not> monDateShape (trim '' 70000 '')
   \<and> parseExcelDate example_host (JStr '' 70000 '') = ''70000''
   \<and> parseExcelDate example_host (JStr '' 70000 '') \<noteq> '' 70000 ''"
  by code_simp

text \<open>
  Every path through \<^verbatim>\<open>parseExcelDate\<close> ends in one of its return statements: the empty
  string, the trimmed text, the formatted date of a valid time value (from a serial number or
  from \<^verbatim>\<open>Date.parse\<close>), or the rearranged parts of an ISO date.
\<close>

lemma serialDate_Some:
  "serialDate h n = Some out \<Longrightarrow> \<exists>t. validTime t \<and> out = formatMDY (LocalTime h t)"
  by (auto simp: serialDate_def Let_def split: jsnumber.splits if_splits)

lemma parseExcelDate_returns:
  "parseExcelDate h v = []
   \<or> parseExcelDate h v = trim (String_js v)
   \<or> (\<exists>t. validTime t \<and> parseExcelDate h v = formatMDY (LocalTime h t))
   \<or> (isoDateShape (trim (String_js v))
       \<and> parseExcelDate h v
           = part (split_on (CHR ''-'') (trim (String_js v))) 1 @ ''/''
             @ part (split_on (CHR ''-'') (trim (String_js v))) 2 @ ''/''
             @ part (split_on (CHR ''-'') (trim (String_js v))) 0)"
proof (cases "v = JNull \<or> v = JUndefined \<or> trim (String_js v) = []")
  case True
  then have "parseExcelDate h v = []"
    by (auto simp: parseExcelDate_def Let_def)
  then show ?thesis by simp
next
  case False
  let ?strVal = "trim (String_js v)"
  show ?thesis
  proof (cases "serialDate h (Number_js ?strVal)")
    case (Some out)
    with False have "parseExcelDate h v = out"
      by (simp add: parseExcelDate_def Let_def)
    with serialDate_Some [OF Some] show ?thesis by blast
  next
    case None
    show ?thesis
    proof (cases "isoDateShape ?strVal")
      case True
      with False None show ?thesis
        by (simp add: parseExcelDate_def Let_def)
    next
      case notIso: False
      show ?thesis
      proof (cases "monDateShape ?strVal")
        case notMon: False
        with False None notIso have "parseExcelDate h v = ?strVal"
          by (simp add: parseExcelDate_def Let_def)
        then show ?thesis by simp
      next
        case True
        show ?thesis
        proof (cases "Date_parse h ?strVal")
          case noDate: None
          with False None notIso True have "parseExcelDate h v = ?strVal"
            by (simp add: parseExcelDate_def Let_def)
          then show ?thesis by simp
        next
          case (Some date)
          show ?thesis
          proof (cases "validTime date")
            case valid: True
            with False None notIso \<open>monDateShape ?strVal\<close> Some
            have "parseExcelDate h v = formatMDY (LocalTime h date)"
              by (simp add: parseExcelDate_def Let_def)
            with valid show ?thesis by blast
          next
            case invalid: False
            with False None notIso \<open>monDateShape ?strVal\<close> Some
            have "parseExcelDate h v = ?strVal"
              by (simp add: parseExcelDate_def Let_def)
            then show ?thesis by simp
          qed
        qed
      qed
    qed
  qed
qed

text \<open>
  Claim C10, amended. Excel-serial conversion applies only to numbers strictly between 30000
  and 60000: for every string whose trimmed text \<^verbatim>\<open>Number\<close> reads as a number at most 30000
  or at least 60000 (infinities included) and which has neither textual date shape,
  \<^verbatim>\<open>parseExcelDate\<close> returns the input with its leading and trailing white space
  trimmed (unchanged when it has none), not a date. And \<^verbatim>\<open>parseExcelDate\<close> never throws:
  every value, \<^verbatim>\<open>null\<close> and \<^verbatim>\<open>undefined\<close> included, leaves through one of the return
  statements, with the empty string, the trimmed text, the formatted date of a valid time
  value, or the rearranged parts of an ISO date. The number is the binary64 value that
  \<^verbatim>\<open>Number\<close> rounds the text to, so a string such as \<open>30000.000000000000001\<close>, read as
  exactly 30000, is out of range.
\<close>

theorem parseExcelDate_out_of_range:
  "(Number_js (trim s) = Finite neg m \<and> (numValue neg m \<le> 30000 \<or> 60000 \<le> numValue neg m)
      \<and> \<not> isoDateShape (trim s) \<and> \<not> monDateShape (trim s) \<longrightarrow>
    parseExcelDate h (JStr s) = trim s)
   \<and> (Number_js (trim s) = Infinite neg
      \<and> \<not> isoDateShape (trim s) \<and> \<not> monDateShape (trim s) \<longrightarrow>
    parseExcelDate h (JStr s) = trim s)
   \<and> parseExcelDate h JNull = [] \<and> parseExcelDate h JUndefined = []
   \<and> (parseExcelDate h v = []
      \<or> parseExcelDate h v = trim (String_js v)
      \<or> (\<exists>t. validTime t \<and> parseExcelDate h v = formatMDY (LocalTime h t))
      \<or> (isoDateShape (trim (String_js v))
          \<and> parseExcelDate h v
              = part (split_on (CHR ''-'') (trim (String_js v))) 1 @ ''/''
                @ part (split_on (CHR ''-'') (trim (String_js v))) 2 @ ''/''
                @ part (split_on (CHR ''-'') (trim (String_js v))) 0))"
proof -
  have a: "parseExcelDate h (JStr s) = trim s"
    if "Number_js (trim s) = Finite neg m"
      "numValue neg m \<le> 30000 \<or> 60000 \<le> numValue neg m"
      "\<not> isoDateShape (trim s)" "\<not> monDateShape (trim s)"
    using that by (auto simp: parseExcelDate_def serialDate_def Let_def)
  have b: "parseExcelDate h (JStr s) = trim s"
    if "Number_js (trim s) = Infinite neg" "\<not> isoDateShape (trim s)" "\<not> monDateShape (trim s)"
    using that by (auto simp: parseExcelDate_def serialDate_def Let_def)
  have c: "parseExcelDate h JNull = []" "parseExcelDate h JUndefined = []"
    by (simp_all add: parseExcelDate_def)
  from a b c parseExcelDate_returns [of h v] show ?thesis by blast
qed

theorem parseExcelDate_out_of_range_witness:
  "Number_js (trim ''30000.000000000000001'') = Finite False 30000
   \<and> numValue False 30000 \<le> 30000
   \<and> \<not> isoDateShape (trim ''30000.000000000000001'')
   \<and> \<not> monDateShape (trim ''30000.000000000000001'')
   \<and> parseExcelDate example_host (JStr ''30000.000000000000001'') = ''30000.000000000000001''
   \<and> Number_js (trim ''Infinity'') = Infinite False
   \<and> \<not> isoDateShape (trim ''Infinity'') \<and> \<not> monDateShape (trim ''Infinity'')
   \<and> parseExcelDate example_host (JStr ''Infinity'') = ''Infinity''"
proof -
  have a: "Number_js (trim ''30000.000000000000001'') = Finite False 30000"
    "numValue False 30000 \<le> 30000"
    "\<not> isoDateShape (trim ''30000.000000000000001'')"
    "\<not> monDateShape (trim ''30000.000000000000001'')"
    "trim ''30000.000000000000001'' = ''30000.000000000000001''"
    by code_simp+
  have b: "Number_js (trim ''Infinity'') = Infinite False"
    "\<not> isoDateShape (trim ''Infinity'')" "\<not> monDateShape (trim ''Infinity'')"
    "trim ''Infinity'' = ''Infinity''"
    by code_simp+
  note low = parseExcelDate_out_of_range
    [of "''30000.000000000000001''" False 30000 example_host JNull, THEN conjunct1]
  note inf = parseExcelDate_out_of_range
    [of "''Infinity''" False 0 example_host JNull, THEN conjunct2, THEN conjunct1]
  from low inf a b show ?thesis by simp
qed

section \<open>Properties of the identifier column\<close>

text \<open>A resolved identifier column is never the empty name.\<close>

lemma isMidColumn_empty: "\<not> isMidColumn []"
  by (simp add: isMidColumn_def normalizeKey_string toLowerCase_def midCandidates_def)

lemma findMidColumn_nonempty: "findMidColumn cols = Some c \<Longrightarrow> c \<noteq> []"
  using isMidColumn_empty by (auto simp: findMidColumn_def find_Some_iff)

section \<open>Properties of the entry form\<close>

lemma fold_pushMatch:
  "fold (pushMatch r n) dbs acc = acc @ List.map_filter (secondaryMatch r n) dbs"
  by (induction dbs arbitrary: acc)
     (simp_all add: pushMatch_def map_filter_simps split: option.splits)

lemma allMatches_sources:
  assumes "findMidColumn (Object_keys r) = Some midKey"
  shows "allMatches dbs r
           = r # List.map_filter
                   (secondaryMatch r (normalizeKey (String_js (get_field r midKey)))) dbs"
  using assms findMidColumn_nonempty [OF assms]
  by (simp add: allMatches_def fold_pushMatch)

lemma length_map_filter_le: "length (List.map_filter f xs) \<le> length xs"
  by (induction xs) (simp_all add: map_filter_simps split: option.splits)

lemma secondaryMatch_first:
  assumes "get_field r ''__sourceFile'' \<noteq> JStr (fileName db)"
    and "findMidColumn (columns db) = Some dbMidKey"
    and "i < length (data db)"
    and "hasNormalizedMid dbMidKey n (data db ! i)"
    and "\<forall>j<i. \<not> hasNormalizedMid dbMidKey n (data db ! j)"
  shows "secondaryMatch r n db = Some (data db ! i)"
proof -
  have "find (hasNormalizedMid dbMidKey n) (data db) = Some (data db ! i)"
    using assms(3-5) by (auto simp: find_Some_iff)
  with assms(1,2) findMidColumn_nonempty [OF assms(2)] show ?thesis
    by (simp add: secondaryMatch_def)
qed

lemma secondaryMatch_none:
  assumes "get_field r ''__sourceFile'' = JStr (fileName db)
           \<or> findMidColumn (columns db) = None
           \<or> (\<forall>row\<in>set (data db). \<forall>dbMidKey. findMidColumn (columns db) = Some dbMidKey \<longrightarrow>
                 \<not> hasNormalizedMid dbMidKey n row)"
  shows "secondaryMatch r n db = None"
  using assms by (auto simp: secondaryMatch_def find_None_iff split: option.splits)

lemma secondaryMatch_in_allMatches:
  assumes "findMidColumn (Object_keys r) = Some midKey"
    and "db \<in> set dbs"
    and "secondaryMatch r (normalizeKey (String_js (get_field r midKey))) db = Some row"
  shows "row \<in> set (allMatches dbs r)"
  using assms(2,3) by (force simp: allMatches_sources [OF assms(1)] map_filter_def)

lemma findVal_first:
  "\<forall>s\<in>set before. findInRecord s keys = None \<Longrightarrow> findInRecord row keys = Some v \<Longrightarrow>
   findVal (before @ row # after) keys = v"
  by (induction before) simp_all

lemma trim_Nil: "trim [] = []"
  by (simp add: trim_def)

lemma keyValue_nonempty: "keyValue record k = Some v \<Longrightarrow> v \<noteq> []"
  by (auto simp: keyValue_def hasValue_def trim_Nil split: if_splits option.splits)

lemma findInRecord_nonempty: "findInRecord record keys = Some v \<Longrightarrow> v \<noteq> []"
  by (induction keys) (auto simp: keyValue_nonempty split: option.splits)

text \<open>
  Claim C3. When \<^verbatim>\<open>populateFields\<close> reconciles a selected record whose identifier column
  resolves, the sources it reads are the selected record followed, in load order, by one
  row from each other loaded table (a table not named by the record's \<open>__sourceFile\<close>)
  whose identifier column resolves and which has a row whose normalized identifier equals
  the normalized identifier of the selected record: the first such row, and no other row
  of that table; the record's own table, a table without identifier column and a table
  without such a row contribute nothing. Every field of the form is read from these
  sources in that order, so a field for which no earlier source has a value and a
  secondary row has one takes that value: it populates the form.
\<close>

theorem populateFields_secondary_sources:
  assumes "findMidColumn (Object_keys initialRecord) = Some midKey"
    and "normalizedMid = normalizeKey (String_js (get_field initialRecord midKey))"
  shows
    "allMatches dbs initialRecord
       = initialRecord # List.map_filter (secondaryMatch initialRecord normalizedMid) dbs
     \<and> length (allMatches dbs initialRecord) \<le> Suc (length dbs)
     \<and> (\<forall>db dbMidKey i.
           db \<in> set dbs
           \<and> get_field initialRecord ''__sourceFile'' \<noteq> JStr (fileName db)
           \<and> findMidColumn (columns db) = Some dbMidKey
           \<and> i < length (data db)
           \<and> hasNormalizedMid dbMidKey normalizedMid (data db ! i)
           \<and> (\<forall>j<i. \<not> hasNormalizedMid dbMidKey normalizedMid (data db ! j)) \<longrightarrow>
           secondaryMatch initialRecord normalizedMid db = Some (data db ! i)
           \<and> data db ! i \<in> set (allMatches dbs initialRecord))
     \<and> (\<forall>db.
           get_field initialRecord ''__sourceFile'' = JStr (fileName db)
           \<or> findMidColumn (columns db) = None
           \<or> (\<forall>row\<in>set (data db). \<forall>dbMidKey.
                 findMidColumn (columns db) = Some dbMidKey \<longrightarrow>
                 \<not> hasNormalizedMid dbMidKey normalizedMid row) \<longrightarrow>
           secondaryMatch initialRecord normalizedMid db = None)
     \<and> (\<forall>keys before row after v.
           allMatches dbs initialRecord = before @ row # after
           \<and> (\<forall>s\<in>set before. findInRecord s keys = None)
           \<and> findInRecord row keys = Some v \<longrightarrow>
           findVal (allMatches dbs initialRecord) keys = v \<and> v \<noteq> [])
     \<and> (databases st = dbs \<and> activeTab st = HOLD \<longrightarrow>
         rmName (holdForm (populateFields h st initialRecord))
           = findVal (allMatches dbs initialRecord) [''rm'', ''rmname'', ''relationshipmanager'']
         \<and> channel (holdForm (populateFields h st initialRecord))
           = findVal (allMatches dbs initialRecord) [''channel'', ''segment'', ''finalseg'']
         \<and> releasedBy (holdForm (populateFields h st initialRecord))
           = findVal (allMatches dbs initialRecord) [''released by'']
         \<and> reason (holdForm (populateFields h st initialRecord))
           = findVal (allMatches dbs initialRecord) [''reason'', ''hold reason'']
         \<and> fmuRemarks (holdForm (populateFields h st initialRecord))
           = findVal (allMatches dbs initialRecord) [''remarks'', ''fmu remarks'']
         \<and> addedBy (holdForm (populateFields h st initialRecord))
           = findVal (allMatches dbs initialRecord) [''added by'', ''created by'']
         \<and> agingHold (populateFields h st initialRecord)
           = findVal (allMatches dbs initialRecord) [''aging of hold'', ''aging'']
         \<and> agingDuration (populateFields h st initialRecord)
           = findVal (allMatches dbs initialRecord) [''aging between hold & release'', ''duration'']
         \<and> dateHold (holdForm (populateFields h st initialRecord))
           = parseExcelDate h
               (JStr (findVal (allMatches dbs initialRecord) [''date of hold'', ''hold date'']))
         \<and> dateRelease (holdForm (populateFields h st initialRecord))
           = parseExcelDate h
               (JStr (findVal (allMatches dbs initialRecord)
                        [''date of relase'', ''release date'', ''released date'']))
         \<and> closedDate (holdForm (populateFields h st initialRecord))
           = parseExcelDate h (JStr (findVal (allMatches dbs initialRecord) [''closed date'']))
         \<and> holdAmount (holdForm (populateFields h st initialRecord))
           = formatCurrency
               (JStr (findVal (allMatches dbs initialRecord) [''hold amount'', ''amount'']))
         \<and> releaseAmount (holdForm (populateFields h st initialRecord))
           = formatCurrency (JStr (findVal (allMatches dbs initialRecord) [''release amount'']))
         \<and> mid (holdForm (populateFields h st initialRecord))
           = str_or (findVal (allMatches dbs initialRecord) [''mid'', ''merchantid'', ''orgmid''])
               (mid (holdForm st))
         \<and> name (holdForm (populateFields h st initialRecord))
           = str_or (findVal (allMatches dbs initialRecord) [''name'', ''merchantname''])
               (name (holdForm st))
         \<and> posEcom (holdForm (populateFields h st initialRecord))
           = str_or (findVal (allMatches dbs initialRecord) [''pos'', ''posecom'', ''type''])
               (case activeProfile st of None \<Rightarrow> [] | Some p \<Rightarrow> defaultPosEcom p)
         \<and> currentStatus (holdForm (populateFields h st initialRecord))
           = str_or (findVal (allMatches dbs initialRecord) [''current status'', ''status''])
               ''Active''
         \<and> accountHold (holdForm (populateFields h st initialRecord))
           = str_or (findVal (allMatches dbs initialRecord)
                       [''account / settlement hold'', ''hold type''])
               ''Account Hold''
         \<and> heldBy (holdForm (populateFields h st initialRecord))
           = str_or (findVal (allMatches dbs initialRecord) [''held by''])
               (case activeProfile st of None \<Rightarrow> [] | Some p \<Rightarrow> defaultHeldBy p))
     \<and> (databases st = dbs \<and> activeTab st = RM \<longrightarrow>
         orgMid (rmForm (populateFields h st initialRecord))
           = str_or (findVal (allMatches dbs initialRecord) [''mid'', ''merchantid'', ''orgmid''])
               (orgMid (rmForm st))
         \<and> name_rm (rmForm (populateFields h st initialRecord))
           = str_or (findVal (allMatches dbs initialRecord) [''name'', ''merchantname''])
               (name_rm (rmForm st))
         \<and> chainId (rmForm (populateFields h st initialRecord))
           = findVal (allMatches dbs initialRecord) [''chain id'', ''chain'']
         \<and> tl_rm (rmForm (populateFields h st initialRecord))
           = findVal (allMatches dbs initialRecord) [''tl'', ''team lead'']
         \<and> groupName (rmForm (populateFields h st initialRecord))
           = findVal (allMatches dbs initialRecord) [''group name'', ''group'']
         \<and> seg (rmForm (populateFields h st initialRecord))
           = findVal (allMatches dbs initialRecord) [''seg'', ''segment'']
         \<and> finalSeg (rmForm (populateFields h st initialRecord))
           = findVal (allMatches dbs initialRecord) [''final seg'', ''final segment'']
         \<and> rm (rmForm (populateFields h st initialRecord))
           = findVal (allMatches dbs initialRecord) [''rm'', ''rmname'', ''relationshipmanager''])"
proof -
  note sources = allMatches_sources [OF assms(1), folded assms(2)]
  have a: "allMatches dbs initialRecord
             = initialRecord # List.map_filter (secondaryMatch initialRecord normalizedMid) dbs"
    by (rule sources)
  have b: "length (allMatches dbs initialRecord) \<le> Suc (length dbs)"
    by (simp add: sources length_map_filter_le)
  have c: "secondaryMatch initialRecord normalizedMid db = Some (data db ! i)
           \<and> data db ! i \<in> set (allMatches dbs initialRecord)"
    if "db \<in> set dbs" "get_field initialRecord ''__sourceFile'' \<noteq> JStr (fileName db)"
      "findMidColumn (columns db) = Some dbMidKey" "i < length (data db)"
      "hasNormalizedMid dbMidKey normalizedMid (data db ! i)"
      "\<forall>j<i. \<not> hasNormalizedMid dbMidKey normalizedMid (data db ! j)"
    for db dbMidKey i
  proof -
    have first: "secondaryMatch initialRecord normalizedMid db = Some (data db ! i)"
      by (rule secondaryMatch_first [OF that(2-6)])
    with that(1) assms show ?thesis
      by (simp add: secondaryMatch_in_allMatches)
  qed
  have d: "secondaryMatch initialRecord normalizedMid db = None"
    if "get_field initialRecord ''__sourceFile'' = JStr (fileName db)
        \<or> findMidColumn (columns db) = None
        \<or> (\<forall>row\<in>set (data db). \<forall>dbMidKey.
              findMidColumn (columns db) = Some dbMidKey \<longrightarrow>
              \<not> hasNormalizedMid dbMidKey normalizedMid row)"
    for db
    by (rule secondaryMatch_none [OF that])
  have e: "findVal (allMatches dbs initialRecord) keys = v \<and> v \<noteq> []"
    if "allMatches dbs initialRecord = before @ row # after"
      "\<forall>s\<in>set before. findInRecord s keys = None" "findInRecord row keys = Some v"
    for keys before row after v
    using that by (simp add: findVal_first findInRecord_nonempty)
  have f: "databases st = dbs \<and> activeTab st = HOLD \<longrightarrow>
         rmName (holdForm (populateFields h st initialRecord))
           = findVal (allMatches dbs initialRecord) [''rm'', ''rmname'', ''relationshipmanager'']
         \<and> channel (holdForm (populateFields h st initialRecord))
           = findVal (allMatches dbs initialRecord) [''channel'', ''segment'', ''finalseg'']
         \<and> releasedBy (holdForm (populateFields h st initialRecord))
           = findVal (allMatches dbs initialRecord) [''released by'']
         \<and> reason (holdForm (populateFields h st initialRecord))
           = findVal (allMatches dbs initialRecord) [''reason'', ''hold reason'']
         \<and> fmuRemarks (holdForm (populateFields h st initialRecord))
           = findVal (allMatches dbs initialRecord) [''remarks'', ''fmu remarks'']
         \<and> addedBy (holdForm (populateFields h st initialRecord))
           = findVal (allMatches dbs initialRecord) [''added by'', ''created by'']
         \<and> agingHold (populateFields h st initialRecord)
           = findVal (allMatches dbs initialRecord) [''aging of hold'', ''aging'']
         \<and> agingDuration (populateFields h st initialRecord)
           = findVal (allMatches dbs initialRecord) [''aging between hold & release'', ''duration'']
         \<and> dateHold (holdForm (populateFields h st initialRecord))
           = parseExcelDate h
               (JStr (findVal (allMatches dbs initialRecord) [''date of hold'', ''hold date'']))
         \<and> dateRelease (holdForm (populateFields h st initialRecord))
           = parseExcelDate h
               (JStr (findVal (allMatches dbs initialRecord)
                        [''date of relase'', ''release date'', ''released date'']))
         \<and> closedDate (holdForm (populateFields h st initialRecord))
           = parseExcelDate h (JStr (findVal (allMatches dbs initialRecord) [''closed date'']))
         \<and> holdAmount (holdForm (populateFields h st initialRecord))
           = formatCurrency
               (JStr (findVal (allMatches dbs initialRecord) [''hold amount'', ''amount'']))
         \<and> releaseAmount (holdForm (populateFields h st initialRecord))
           = formatCurrency (JStr (findVal (allMatches dbs initialRecord) [''release amount'']))
         \<and> mid (holdForm (populateFields h st initialRecord))
           = str_or (findVal (allMatches dbs initialRecord) [''mid'', ''merchantid'', ''orgmid''])
               (mid (holdForm st))
         \<and> name (holdForm (populateFields h st initialRecord))
           = str_or (findVal (allMatches dbs initialRecord) [''name'', ''merchantname''])
               (name (holdForm st))
         \<and> posEcom (holdForm (populateFields h st initialRecord))
           = str_or (findVal (allMatches dbs initialRecord) [''pos'', ''posecom'', ''type''])
               (case activeProfile st of None \<Rightarrow> [] | Some p \<Rightarrow> defaultPosEcom p)
         \<and> currentStatus (holdForm (populateFields h st initialRecord))
           = str_or (findVal (allMatches dbs initialRecord) [''current status'', ''status''])
               ''Active''
         \<and> accountHold (holdForm (populateFields h st initialRecord))
           = str_or (findVal (allMatches dbs initialRecord)
                       [''account / settlement hold'', ''hold type''])
               ''Account Hold''
         \<and> heldBy (holdForm (populateFields h st initialRecord))
           = str_or (findVal (allMatches dbs initialRecord) [''held by''])
               (case activeProfile st of None \<Rightarrow> [] | Some p \<Rightarrow> defaultHeldBy p)"
    by (simp add: populateFields_def Let_def str_or_def split: option.splits)
  have g: "databases st = dbs \<and> activeTab st = RM \<longrightarrow>
         orgMid (rmForm (populateFields h st initialRecord))
           = str_or (findVal (allMatches dbs initialRecord) [''mid'', ''merchantid'', ''orgmid''])
               (orgMid (rmForm st))
         \<and> name_rm (rmForm (populateFields h st initialRecord))
           = str_or (findVal (allMatches dbs initialRecord) [''name'', ''merchantname''])
               (name_rm (rmForm st))
         \<and> chainId (rmForm (populateFields h st initialRecord))
           = findVal (allMatches dbs initialRecord) [''chain id'', ''chain'']
         \<and> tl_rm (rmForm (populateFields h st initialRecord))
           = findVal (allMatches dbs initialRecord) [''tl'', ''team lead'']
         \<and> groupName (rmForm (populateFields h st initialRecord))
           = findVal (allMatches dbs initialRecord) [''group name'', ''group'']
         \<and> seg (rmForm (populateFields h st initialRecord))
           = findVal (allMatches dbs initialRecord) [''seg'', ''segment'']
         \<and> finalSeg (rmForm (populateFields h st initialRecord))
           = findVal (allMatches dbs initialRecord) [''final seg'', ''final segment'']
         \<and> rm (rmForm (populateFields h st initialRecord))
           = findVal (allMatches dbs initialRecord) [''rm'', ''rmname'', ''relationshipmanager'']"
    by (simp add: populateFields_def Let_def)
  from c have c': "\<forall>db dbMidKey i.
           db \<in> set dbs
           \<and> get_field initialRecord ''__sourceFile'' \<noteq> JStr (fileName db)
           \<and> findMidColumn (columns db) = Some dbMidKey
           \<and> i < length (data db)
           \<and> hasNormalizedMid dbMidKey normalizedMid (data db ! i)
           \<and> (\<forall>j<i. \<not> hasNormalizedMid dbMidKey normalizedMid (data db ! j)) \<longrightarrow>
           secondaryMatch initialRecord normalizedMid db = Some (data db ! i)
           \<and> data db ! i \<in> set (allMatches dbs initialRecord)"
    by blast
  from d have d': "\<forall>db.
           get_field initialRecord ''__sourceFile'' = JStr (fileName db)
           \<or> findMidColumn (columns db) = None
           \<or> (\<forall>row\<in>set (data db). \<forall>dbMidKey.
                 findMidColumn (columns db) = Some dbMidKey \<longrightarrow>
                 \<not> hasNormalizedMid dbMidKey normalizedMid row) \<longrightarrow>
           secondaryMatch initialRecord normalizedMid db = None"
    by blast
  from e have e': "\<forall>keys before row after v.
           allMatches dbs initialRecord = before @ row # after
           \<and> (\<forall>s\<in>set before. findInRecord s keys = None)
           \<and> findInRecord row keys = Some v \<longrightarrow>
           findVal (allMatches dbs initialRecord) keys = v \<and> v \<noteq> []"
    by blast
  from a b c' d' e' f g show ?thesis
    by (intro conjI)
qed

theorem populateFields_secondary_sources_witness:
  "findMidColumn (Object_keys example_selected) = Some ''MID''
   \<and> normalizeKey (String_js (get_field example_selected ''MID'')) = ''m100''
   \<and> databases example_entry = [example_hold_table, example_rm_table]
   \<and> activeTab example_entry = HOLD
   \<and> get_field example_selected ''__sourceFile'' = JStr (fileName example_hold_table)
   \<and> get_field example_selected ''__sourceFile'' \<noteq> JStr (fileName example_rm_table)
   \<and> findMidColumn (columns example_rm_table) = Some ''MID''
   \<and> data example_rm_table ! 0 = [(''MID'', JStr ''M100''), (''RM Name'', JStr ''Dana'')]
   \<and> hasNormalizedMid ''MID'' ''m100'' (data example_rm_table ! 0)
   \<and> allMatches [example_hold_table, example_rm_table] example_selected
       = [example_selected, [(''MID'', JStr ''M100''), (''RM Name'', JStr ''Dana'')]]
   \<and> findInRecord example_selected [''rm'', ''rmname'', ''relationshipmanager''] = None
   \<and> findInRecord [(''MID'', JStr ''M100''), (''RM Name'', JStr ''Dana'')]
         [''rm'', ''rmname'', ''relationshipmanager''] = Some ''Dana''
   \<and> rmName (holdForm (populateFields example_host example_entry example_selected)) = ''Dana''"
proof -
  have key: "findMidColumn (Object_keys example_selected) = Some ''MID''"
    and norm: "''m100'' = normalizeKey (String_js (get_field example_selected ''MID''))"
    by code_simp+
  have entry: "databases example_entry = [example_hold_table, example_rm_table]"
    "activeTab example_entry = HOLD"
    by (simp_all add: example_entry_def)
  have own: "get_field example_selected ''__sourceFile'' = JStr (fileName example_hold_table)"
    by code_simp
  have other: "example_rm_table \<in> set [example_hold_table, example_rm_table]"
    "get_field example_selected ''__sourceFile'' \<noteq> JStr (fileName example_rm_table)"
    "findMidColumn (columns example_rm_table) = Some ''MID''"
    "0 < length (data example_rm_table)"
    "hasNormalizedMid ''MID'' ''m100'' (data example_rm_table ! 0)"
    "data example_rm_table ! 0 = [(''MID'', JStr ''M100''), (''RM Name'', JStr ''Dana'')]"
    by simp code_simp+
  have vals: "findInRecord example_selected [''rm'', ''rmname'', ''relationshipmanager''] = None"
    "findInRecord [(''MID'', JStr ''M100''), (''RM Name'', JStr ''Dana'')]
       [''rm'', ''rmname'', ''relationshipmanager''] = Some ''Dana''"
    by code_simp+
  note inst = populateFields_secondary_sources
    [where initialRecord = example_selected and dbs = "[example_hold_table, example_rm_table]"
       and st = example_entry and h = example_host, OF key norm]
  have none: "secondaryMatch example_selected ''m100'' example_hold_table = None"
    using inst [THEN conjunct2, THEN conjunct2, THEN conjunct2, THEN conjunct1, rule_format,
        of example_hold_table] own
    by simp
  have some: "secondaryMatch example_selected ''m100'' example_rm_table
                = Some [(''MID'', JStr ''M100''), (''RM Name'', JStr ''Dana'')]"
    using inst [THEN conjunct2, THEN conjunct2, THEN conjunct1, rule_format,
        of example_rm_table "''MID''" 0] other
    by simp
  have all: "allMatches [example_hold_table, example_rm_table] example_selected
          = [example_selected] @ [(''MID'', JStr ''M100''), (''RM Name'', JStr ''Dana'')] # []"
    using inst [THEN conjunct1] none some by (simp add: map_filter_simps)
  have found: "findVal (allMatches [example_hold_table, example_rm_table] example_selected)
                 [''rm'', ''rmname'', ''relationshipmanager''] = ''Dana''"
    using inst [THEN conjunct2, THEN conjunct2, THEN conjunct2, THEN conjunct2, THEN conjunct1,
        rule_format,
        of "[example_selected]" "[(''MID'', JStr ''M100''), (''RM Name'', JStr ''Dana'')]" "[]"
          "[''rm'', ''rmname'', ''relationshipmanager'']" "''Dana''"]
      all vals
    by simp
  have form: "rmName (holdForm (populateFields example_host example_entry example_selected))
                = ''Dana''"
    using inst [THEN conjunct2, THEN conjunct2, THEN conjunct2, THEN conjunct2, THEN conjunct2,
        THEN conjunct1] entry found
    by simp
  from key norm [symmetric] entry own other all vals form show ?thesis
    by simp
qed

section \<open>Properties of the spreadsheet updater\<close>

lemma findIndex_None: "findIndex p xs = None \<longleftrightarrow> (\<forall>x \<in> set xs. \<not> p x)"
  by (induction xs) (auto split: option.splits)

lemma matchesType_empty: "\<not> matchesType ty []"
  by (cases ty)
    (simp_all add: matchesType_def normalizeKey_string toLowerCase_def sheetToken_def)

lemma findSheet_match:
  assumes "find (matchesType ty) names = Some n"
  shows "findSheet ty names = Some n" and "matchesType ty n"
proof -
  from assms show m: "matchesType ty n"
    by (auto simp: find_Some_iff)
  with matchesType_empty have "n \<noteq> []" by auto
  with assms show "findSheet ty names = Some n"
    by (simp add: findSheet_def)
qed

lemma findSheet_nomatch:
  assumes "\<forall>n \<in> set names. \<not> matchesType ty n"
  shows "findSheet ty names = firstName names"
proof -
  from assms have "find (matchesType ty) names = None"
    by (simp add: find_None_iff)
  then show ?thesis by (simp add: findSheet_def)
qed

text \<open>
  Claim C1, as stated, fails: the workbook below has two sheets, \<open>Sheet1\<close> and \<open>Summary\<close>,
  and neither normalized name contains \<open>hold\<close>; the update of merchant \<open>M100\<close> does not
  fail but succeeds, and the file is rewritten with the first sheet patched.
\<close>

theorem updateRow_ambiguous_counterexample:
  "getMasterHandle example_store HOLD
     = Some \<lparr>permission = True, grantOnRequest = False, contents = Some example_workbook,
             writeFails = False\<rparr>
   \<and> SheetNames example_workbook = [''Sheet1'', ''Summary'']
   \<and> \<not> matchesType HOLD ''Sheet1'' \<and> \<not> matchesType HOLD ''Summary''
   \<and> updateRowInMasterSheet True example_store HOLD ''M100'' [(''Current Status'', JStr ''Closed'')]
     = (Updated,
        [(''master_excel_HOLD'',
          \<lparr>permission = True, grantOnRequest = False,
           contents = Some
             \<lparr>SheetNames = [''Sheet1'', ''Summary''],
              Sheets =
                [(''Sheet1'',
                    [[(''MID'', JStr ''M100''), (''Status'', JStr ''Closed'')],
                     [(''MID'', JStr ''M200''), (''Status'', JStr ''Active'')]]),
                 (''Summary'', [[(''Total'', JNum 2)]])]\<rparr>,
           writeFails = False\<rparr>)])"
  by code_simp

text \<open>
  Claim C1, amended. Sheet selection for an update picks the first sheet whose normalized
  name contains the lower-cased sheet type (\<open>hold\<close> or \<open>rm\<close>); if no sheet matches it
  falls back to the first sheet of the workbook, however many sheets there are, and the
  update goes on with that sheet: there is no ambiguous-sheet failure. In the append
  operation the sole sheet is the fallback only when the workbook has exactly one sheet;
  otherwise a new sheet named \<open>Hold_Entries\<close> or \<open>RM_Entries\<close> is appended.
\<close>

theorem sheet_selection:
  "(find (matchesType ty) names = Some n \<longrightarrow> findSheet ty names = Some n \<and> matchesType ty n)
   \<and> ((\<forall>n \<in> set (first # rest). \<not> matchesType ty n) \<longrightarrow>
        findSheet ty (first # rest) = Some first)
   \<and> (xlsx \<and> midToFind \<noteq> [] \<and> getMasterHandle store ty = Some fileHandle
        \<and> (permission fileHandle \<or> grantOnRequest fileHandle)
        \<and> contents fileHandle = Some wb
        \<and> SheetNames wb = first # rest \<and> (\<forall>n \<in> set (first # rest). \<not> matchesType ty n)
        \<and> map_of (Sheets wb) first = Some rows
        \<and> findMidColumn (columnsOf rows) = Some midColumn
        \<and> findIndex (matchesMid midColumn midToFind) rows = Some i
        \<and> patchRow (columnsOf rows) updatedData (Object_keys updatedData) (rows ! i) = Inr patched
        \<and> \<not> writeFails fileHandle \<longrightarrow>
      updateRowInMasterSheet xlsx store ty midToFind updatedData
        = (Updated,
           writeFile store ty (wb\<lparr>Sheets := AList.update first (rows[i := patched]) (Sheets wb)\<rparr>)))
   \<and> (map_of (Sheets wb) (entriesName ty) = None
        \<and> (\<forall>n \<in> set (SheetNames wb). \<not> matchesType ty n) \<longrightarrow>
      appendSheet ty wb
        = (case SheetNames wb of
             [only] \<Rightarrow> (only, wb)
           | _ \<Rightarrow> (entriesName ty, book_append_sheet wb [] (entriesName ty))))"
proof -
  have a: "findSheet ty names = Some n \<and> matchesType ty n"
    if "find (matchesType ty) names = Some n"
    using findSheet_match [OF that] by simp
  have b: "findSheet ty (first # rest) = Some first"
    if "\<forall>n \<in> set (first # rest). \<not> matchesType ty n"
    using findSheet_nomatch [OF that] by (simp add: firstName_def)
  have c: "updateRowInMasterSheet xlsx store ty midToFind updatedData
        = (Updated,
           writeFile store ty (wb\<lparr>Sheets := AList.update first (rows[i := patched]) (Sheets wb)\<rparr>))"
    if pre: "xlsx" "midToFind \<noteq> []" "getMasterHandle store ty = Some fileHandle"
        "permission fileHandle \<or> grantOnRequest fileHandle"
        "contents fileHandle = Some wb"
      and names: "SheetNames wb = first # rest"
      and none: "\<forall>n \<in> set (first # rest). \<not> matchesType ty n"
      and sheet: "map_of (Sheets wb) first = Some rows"
      and col: "findMidColumn (columnsOf rows) = Some midColumn"
      and row: "findIndex (matchesMid midColumn midToFind) rows = Some i"
      and patch: "patchRow (columnsOf rows) updatedData (Object_keys updatedData) (rows ! i)
          = Inr patched"
      and writable: "\<not> writeFails fileHandle"
  proof -
    from b [OF none] names have sel: "findSheet ty (SheetNames wb) = Some first"
      by simp
    from sheet have json: "sheet_to_json wb (Some first) = rows"
      by (simp add: sheet_to_json_def)
    from findMidColumn_nonempty [OF col] have "midColumn \<noteq> []" .
    with pre col row patch writable show ?thesis
      by (auto simp: updateRowInMasterSheet_def Let_def sel json sheetKey_def)
  qed
  have d: "appendSheet ty wb
        = (case SheetNames wb of
             [only] \<Rightarrow> (only, wb)
           | _ \<Rightarrow> (entriesName ty, book_append_sheet wb [] (entriesName ty)))"
    if "map_of (Sheets wb) (entriesName ty) = None"
      and "\<forall>n \<in> set (SheetNames wb). \<not> matchesType ty n"
  proof -
    from that(2) have "find (matchesType ty) (SheetNames wb) = None"
      by (simp add: find_None_iff)
    with that(1) show ?thesis
      by (simp add: appendSheet_def)
  qed
  from a b c d show ?thesis by blast
qed

theorem sheet_selection_witness:
  "find (matchesType HOLD) [''Data'', ''On Hold 2024'', ''Holdings''] = Some ''On Hold 2024''
   \<and> findSheet HOLD [''Data'', ''On Hold 2024'', ''Holdings''] = Some ''On Hold 2024''
   \<and> matchesType HOLD ''On Hold 2024''
   \<and> list_all (\<lambda>n. \<not> matchesType HOLD n) [''Sheet1'', ''Summary'']
   \<and> findSheet HOLD [''Sheet1'', ''Summary''] = Some ''Sheet1''
   \<and> map_of (Sheets example_workbook) (entriesName HOLD) = None
   \<and> appendSheet HOLD example_workbook
       = (''Hold_Entries'', book_append_sheet example_workbook [] ''Hold_Entries'')
   \<and> fst (updateRowInMasterSheet True example_store HOLD ''M100''
            [(''Current Status'', JStr ''Closed'')]) = Updated"
proof -
  let ?fh = "\<lparr>permission = True, grantOnRequest = False, contents = Some example_workbook,
             writeFails = False\<rparr>"
  let ?rows = "[[(''MID'', JStr ''M100''), (''Status'', JStr ''Active'')],
             [(''MID'', JStr ''M200''), (''Status'', JStr ''Active'')]]"
  let ?upd = "[(''Current Status'', JStr ''Closed'')]"
  have f: "find (matchesType HOLD) [''Data'', ''On Hold 2024'', ''Holdings''] = Some ''On Hold 2024''"
    by code_simp
  have none: "\<forall>n \<in> set [''Sheet1'', ''Summary'']. \<not> matchesType HOLD n"
    by code_simp
  have handle: "getMasterHandle example_store HOLD = Some ?fh"
    by code_simp
  have names: "SheetNames example_workbook = [''Sheet1'', ''Summary'']"
    by code_simp
  have sheet: "map_of (Sheets example_workbook) ''Sheet1'' = Some ?rows"
    by code_simp
  have col: "findMidColumn (columnsOf ?rows) = Some ''MID''"
    by code_simp
  have row: "findIndex (matchesMid ''MID'' ''M100'') ?rows = Some 0"
    by code_simp
  have patch: "patchRow (columnsOf ?rows) ?upd (Object_keys ?upd) (?rows ! 0)
      = Inr [(''MID'', JStr ''M100''), (''Status'', JStr ''Closed'')]"
    by code_simp
  have entries: "map_of (Sheets example_workbook) (entriesName HOLD) = None"
    "entriesName HOLD = ''Hold_Entries''"
    by code_simp+
  note inst = sheet_selection
    [of HOLD "[''Data'', ''On Hold 2024'', ''Holdings'']" "''On Hold 2024''" "''Sheet1''"
      "[''Summary'']" True "''M100''" example_store ?fh example_workbook ?rows "''MID''" 0
      ?upd "[(''MID'', JStr ''M100''), (''Status'', JStr ''Closed'')]"]
  from inst f none handle names sheet col row patch entries
  show ?thesis by simp
qed

text \<open>
  Claim C2. When the linked workbook is readable, its identifier column resolves and no row
  of the selected sheet has the normalized identifier of the request, the update fails with
  the not-found alert and the store of linked files is exactly what it was; and so it is
  after every failure that happens before the rewrite step.
\<close>

theorem updateRow_not_found_untouched:
  "(xlsx \<and> midToFind \<noteq> [] \<and> getMasterHandle store ty = Some fileHandle
      \<and> (permission fileHandle \<or> grantOnRequest fileHandle)
      \<and> contents fileHandle = Some wb
      \<and> findMidColumn (columnsOf (sheet_to_json wb (findSheet ty (SheetNames wb)))) = Some midColumn
      \<and> (\<forall>row \<in> set (sheet_to_json wb (findSheet ty (SheetNames wb))).
            normalizeKey (String_js (get_field row midColumn)) \<noteq> normalizeKey midToFind) \<longrightarrow>
    updateRowInMasterSheet xlsx store ty midToFind updatedData = (Failed RowNotFound, store))
   \<and> (fst (updateRowInMasterSheet xlsx store ty midToFind updatedData) = Failed f
        \<and> f \<noteq> UpdateError WriteFault \<longrightarrow>
      snd (updateRowInMasterSheet xlsx store ty midToFind updatedData) = store)"
proof -
  have a: "updateRowInMasterSheet xlsx store ty midToFind updatedData = (Failed RowNotFound, store)"
    if pre: "xlsx" "midToFind \<noteq> []" "getMasterHandle store ty = Some fileHandle"
        "permission fileHandle \<or> grantOnRequest fileHandle"
        "contents fileHandle = Some wb"
      and col: "findMidColumn (columnsOf (sheet_to_json wb (findSheet ty (SheetNames wb))))
          = Some midColumn"
      and none: "\<forall>row \<in> set (sheet_to_json wb (findSheet ty (SheetNames wb))).
            normalizeKey (String_js (get_field row midColumn)) \<noteq> normalizeKey midToFind"
  proof -
    from none have "findIndex (matchesMid midColumn midToFind)
        (sheet_to_json wb (findSheet ty (SheetNames wb))) = None"
      by (simp add: findIndex_None matchesMid_def)
    moreover from findMidColumn_nonempty [OF col] have "midColumn \<noteq> []" .
    ultimately show ?thesis
      using pre col by (auto simp: updateRowInMasterSheet_def Let_def)
  qed
  have b: "snd (updateRowInMasterSheet xlsx store ty midToFind updatedData) = store"
    if "fst (updateRowInMasterSheet xlsx store ty midToFind updatedData) = Failed f"
    using that
    by (auto simp: updateRowInMasterSheet_def Let_def split: if_splits option.splits sum.splits)
  from a b show ?thesis by blast
qed

theorem updateRow_not_found_untouched_witness:
  "getMasterHandle example_store HOLD
     = Some \<lparr>permission = True, grantOnRequest = False, contents = Some example_workbook,
             writeFails = False\<rparr>
   \<and> findMidColumn (columnsOf (sheet_to_json example_workbook
         (findSheet HOLD (SheetNames example_workbook)))) = Some ''MID''
   \<and> findIndex (matchesMid ''MID'' ''M999'')
         (sheet_to_json example_workbook (findSheet HOLD (SheetNames example_workbook))) = None
   \<and> updateRowInMasterSheet True example_store HOLD ''M999'' [(''Current Status'', JStr ''Closed'')]
       = (Failed RowNotFound, example_store)
   \<and> fst (updateRowInMasterSheet True example_store RM ''M100'' []) = Failed NoLinkedResource
   \<and> snd (updateRowInMasterSheet True example_store RM ''M100'' []) = example_store"
proof -
  let ?fh = "\<lparr>permission = True, grantOnRequest = False, contents = Some example_workbook,
             writeFails = False\<rparr>"
  have handle: "getMasterHandle example_store HOLD = Some ?fh"
    by code_simp
  have col: "findMidColumn (columnsOf (sheet_to_json example_workbook
         (findSheet HOLD (SheetNames example_workbook)))) = Some ''MID''"
    by code_simp
  have idx: "findIndex (matchesMid ''MID'' ''M999'')
         (sheet_to_json example_workbook (findSheet HOLD (SheetNames example_workbook))) = None"
    by code_simp
  then have none: "\<forall>row \<in> set (sheet_to_json example_workbook
           (findSheet HOLD (SheetNames example_workbook))).
         normalizeKey (String_js (get_field row ''MID'')) \<noteq> normalizeKey ''M999''"
    by (simp add: findIndex_None matchesMid_def)
  have rm: "fst (updateRowInMasterSheet True example_store RM ''M100'' []) = Failed NoLinkedResource"
    by code_simp
  from updateRow_not_found_untouched
      [of True "''M999''" example_store HOLD ?fh example_workbook "''MID''"
        "[(''Current Status'', JStr ''Closed'')]"]
    updateRow_not_found_untouched
      [of True "''M100''" example_store RM _ _ _ "[]" NoLinkedResource]
    handle col idx none rm
  show ?thesis by simp
qed

section \<open>Properties of configuration import\<close>

text \<open>
  Claim C8. The import checks that the parsed document has a \<open>profiles\<close> field holding an
  array, and rejects the document otherwise; a document that has one passes the check. A
  rejected document changes nothing: after a failed parse or a failed check, both the
  profile store and the active profile id are what they were.
\<close>

theorem importSystemConfig_validates:
  "(profilesArray config = None \<longrightarrow>
      snd (importSystemConfig dbOpens txCommits st (Some config)) = st
      \<and> (fst (importSystemConfig dbOpens txCommits st (Some config)) = Some InvalidConfigurationFile
         \<or> fst (importSystemConfig dbOpens txCommits st (Some config)) = Some TypeError))
   \<and> importSystemConfig dbOpens txCommits st None = (Some SyntaxError, st)
   \<and> (profilesArray config = Some ps \<longrightarrow>
      fst (importSystemConfig dbOpens txCommits st (Some config)) \<noteq> Some InvalidConfigurationFile
      \<and> fst (importSystemConfig dbOpens txCommits st (Some config)) \<noteq> Some TypeError
      \<and> fst (importSystemConfig dbOpens txCommits st (Some config)) \<noteq> Some SyntaxError)
   \<and> (fst (importSystemConfig dbOpens txCommits st parsed) = Some InvalidConfigurationFile
        \<or> fst (importSystemConfig dbOpens txCommits st parsed) = Some TypeError
        \<or> fst (importSystemConfig dbOpens txCommits st parsed) = Some SyntaxError \<longrightarrow>
      snd (importSystemConfig dbOpens txCommits st parsed) = st)"
proof -
  have rejected: "snd (importSystemConfig dbOpens txCommits st (Some config)) = st
      \<and> (fst (importSystemConfig dbOpens txCommits st (Some config)) = Some InvalidConfigurationFile
         \<or> fst (importSystemConfig dbOpens txCommits st (Some config)) = Some TypeError)"
    if "profilesArray config = None"
    using that
    by (auto simp: importSystemConfig_def profilesArray_def split: option.splits json.splits)
  have unparsed: "importSystemConfig dbOpens txCommits st None = (Some SyntaxError, st)"
    by (simp add: importSystemConfig_def)
  have accepted:
    "fst (importSystemConfig dbOpens txCommits st (Some config)) \<noteq> Some InvalidConfigurationFile
      \<and> fst (importSystemConfig dbOpens txCommits st (Some config)) \<noteq> Some TypeError
      \<and> fst (importSystemConfig dbOpens txCommits st (Some config)) \<noteq> Some SyntaxError"
    if "profilesArray config = Some ps"
  proof -
    from that have field: "member config ''profiles'' = Some (JsArray ps)"
      by (auto simp: profilesArray_def split: option.splits json.splits)
    then have "config \<noteq> JsNull"
      by (auto simp: member_def)
    with field show ?thesis
      by (simp add: importSystemConfig_def Let_def split: prod.splits)
  qed
  have untouched: "snd (importSystemConfig dbOpens txCommits st parsed) = st"
    if "fst (importSystemConfig dbOpens txCommits st parsed) = Some InvalidConfigurationFile
        \<or> fst (importSystemConfig dbOpens txCommits st parsed) = Some TypeError
        \<or> fst (importSystemConfig dbOpens txCommits st parsed) = Some SyntaxError"
    using that
    by (auto simp: importSystemConfig_def Let_def
        split: option.splits json.splits if_splits prod.splits)
  from rejected unparsed accepted untouched show ?thesis by blast
qed

theorem importSystemConfig_validates_witness:
  "profilesArray example_bad_config = None
   \<and> importSystemConfig True True example_stores (Some example_bad_config)
       = (Some InvalidConfigurationFile, example_stores)
   \<and> profilesArray example_good_config
       = Some [JsObject [(''id'', JsString ''p2''), (''name'', JsString ''Bo'')]]
   \<and> fst (importSystemConfig True True example_stores (Some example_good_config)) = None
   \<and> snd (importSystemConfig True True example_stores (Some JsNull)) = example_stores"
proof -
  have bad: "profilesArray example_bad_config = None"
    by code_simp
  have run: "importSystemConfig True True example_stores (Some example_bad_config)
       = (Some InvalidConfigurationFile, example_stores)"
    by code_simp
  have good: "profilesArray example_good_config
       = Some [JsObject [(''id'', JsString ''p2''), (''name'', JsString ''Bo'')]]"
    by code_simp
  have ok: "fst (importSystemConfig True True example_stores (Some example_good_config)) = None"
    by code_simp
  have nullDoc: "fst (importSystemConfig True True example_stores (Some JsNull)) = Some TypeError"
    by code_simp
  from importSystemConfig_validates
      [of example_bad_config True True example_stores
        "[JsObject [(''id'', JsString ''p2''), (''name'', JsString ''Bo'')]]" "Some JsNull"]
    importSystemConfig_validates
      [of example_good_config True True example_stores
        "[JsObject [(''id'', JsString ''p2''), (''name'', JsString ''Bo'')]]" "Some JsNull"]
    bad run good ok nullDoc
  show ?thesis by simp
qed

end
